theory Spec2Isabelle
  imports Complex_Main "HOL-Library.Sublist" "HOL-Library.AList"
begin

section \<open>JavaScript values and the string primitives the breadcrumb engine calls\<close>

text \<open>
  The engine of \<^verbatim>\<open>breadcrumb.js\<close> keeps its trail in a JavaScript array whose
  elements come either from object literals it builds itself or from
  \<^verbatim>\<open>JSON.parse\<close> of the persisted record. Values are therefore modelled
  dynamically: a method called on a value that does not have it raises
  \<^verbatim>\<open>TypeError\<close>, which is a value of the result type here.

  Strings are \<open>char list\<close>. Searching, the prefix test and the replacement
  compare characters only, whatever they are. \<open>toLowerCase\<close> folds the letters A
  to Z and leaves every other character; the engine only asks whether the
  folded text contains \<open>dashboard\<close> or is \<open>admin\<close>. Which characters
  \<^verbatim>\<open>String.prototype.trim\<close> strips is the platform's matter: \<open>String_trim\<close>
  is a parameter of the page. Numbers are never computed with, only tested for
  truthiness, so a number is carried as a rational.
\<close>

datatype jsval =
    JUndefined
  | JNull
  | JBool bool
  | JNum rat
  | JStr string
  | JArr "jsval list"
  | JObj "(string \<times> jsval) list"

datatype error = TypeError | SyntaxError | StorageError

definition bind_e :: "error + 'a \<Rightarrow> ('a \<Rightarrow> error + 'b) \<Rightarrow> error + 'b" where
  "bind_e m f = (case m of Inl e \<Rightarrow> Inl e | Inr x \<Rightarrow> f x)"

text \<open>\<^verbatim>\<open>Array.prototype.some\<close>, \<^verbatim>\<open>find\<close> and \<^verbatim>\<open>filter\<close> with a callback that may
  throw: the first exception ends the loop.\<close>

fun some_e :: "('a \<Rightarrow> error + bool) \<Rightarrow> 'a list \<Rightarrow> error + bool" where
  "some_e f [] = Inr False"
| "some_e f (x # xs) = bind_e (f x) (\<lambda>b. if b then Inr True else some_e f xs)"

fun find_e :: "('a \<Rightarrow> error + bool) \<Rightarrow> 'a list \<Rightarrow> error + 'a option" where
  "find_e f [] = Inr None"
| "find_e f (x # xs) = bind_e (f x) (\<lambda>b. if b then Inr (Some x) else find_e f xs)"

fun filter_e :: "('a \<Rightarrow> error + bool) \<Rightarrow> 'a list \<Rightarrow> error + 'a list" where
  "filter_e f [] = Inr []"
| "filter_e f (x # xs) =
     bind_e (f x) (\<lambda>b. bind_e (filter_e f xs) (\<lambda>ys. Inr (if b then x # ys else ys)))"

text \<open>Truthiness (\<^verbatim>\<open>ToBoolean\<close>) and \<^verbatim>\<open>typeof\<close>.\<close>

fun js_truthy :: "jsval \<Rightarrow> bool" where
  "js_truthy JUndefined = False"
| "js_truthy JNull = False"
| "js_truthy (JBool b) = b"
| "js_truthy (JNum n) = (n \<noteq> 0)"
| "js_truthy (JStr s) = (s \<noteq> [])"
| "js_truthy (JArr xs) = True"
| "js_truthy (JObj kvs) = True"

fun js_typeof :: "jsval \<Rightarrow> string" where
  "js_typeof JUndefined = ''undefined''"
| "js_typeof JNull = ''object''"
| "js_typeof (JBool b) = ''boolean''"
| "js_typeof (JNum n) = ''number''"
| "js_typeof (JStr s) = ''string''"
| "js_typeof (JArr xs) = ''object''"
| "js_typeof (JObj kvs) = ''object''"

text \<open>Reading \<^verbatim>\<open>v.label\<close> or \<^verbatim>\<open>v.url\<close>: \<^verbatim>\<open>null\<close> and \<^verbatim>\<open>undefined\<close> throw, an
  object yields its own property, every other value has no such property.\<close>

fun get_prop :: "jsval \<Rightarrow> string \<Rightarrow> error + jsval" where
  "get_prop JUndefined k = Inl TypeError"
| "get_prop JNull k = Inl TypeError"
| "get_prop (JObj kvs) k = Inr (case map_of kvs k of Some v \<Rightarrow> v | None \<Rightarrow> JUndefined)"
| "get_prop v k = Inr JUndefined"

text \<open>\<^verbatim>\<open>String.prototype.includes\<close>: some suffix of the string starts with the
  pattern.\<close>

fun str_includes :: "string \<Rightarrow> string \<Rightarrow> bool" where
  "str_includes [] pat = (pat = [])"
| "str_includes (c # cs) pat = (prefix pat (c # cs) \<or> str_includes cs pat)"

text \<open>\<^verbatim>\<open>s.replace(pat, '')\<close> with a string pattern: the first occurrence of the
  pattern is removed, later ones stay.\<close>

fun str_remove_first :: "string \<Rightarrow> string \<Rightarrow> string" where
  "str_remove_first pat [] = []"
| "str_remove_first pat (c # cs) =
     (if prefix pat (c # cs) then drop (length pat) (c # cs)
      else c # str_remove_first pat cs)"

definition lower_char :: "char \<Rightarrow> char" where
  "lower_char c =
     (case map_of (zip ''ABCDEFGHIJKLMNOPQRSTUVWXYZ'' ''abcdefghijklmnopqrstuvwxyz'') c of
        Some d \<Rightarrow> d
      | None \<Rightarrow> c)"

definition toLowerCase :: "string \<Rightarrow> string" where
  "toLowerCase s = map lower_char s"

text \<open>The method calls on a value of unknown type. \<^verbatim>\<open>includes\<close> exists on
  strings and on arrays (membership by strict equality), \<^verbatim>\<open>toLowerCase\<close> and
  \<^verbatim>\<open>replace\<close> on strings only.\<close>

fun js_includes :: "jsval \<Rightarrow> string \<Rightarrow> error + bool" where
  "js_includes (JStr s) pat = Inr (str_includes s pat)"
| "js_includes (JArr xs) pat = Inr (JStr pat \<in> set xs)"
| "js_includes v pat = Inl TypeError"

fun js_toLowerCase :: "jsval \<Rightarrow> error + string" where
  "js_toLowerCase (JStr s) = Inr (toLowerCase s)"
| "js_toLowerCase v = Inl TypeError"

section \<open>URL normalizer\<close>

text \<open>
  \<^verbatim>\<open>function normalizeUrl(url) {
    const path = url.replace(window.location.origin, '');
    return path.startsWith('/') ? path : '/' + path;
}\<close>
  The origin of the page is the first argument.
\<close>

definition normalizeUrl :: "string \<Rightarrow> string \<Rightarrow> string" where
  "normalizeUrl origin url =
     (let path = str_remove_first origin url
      in if prefix ''/'' path then path else ''/'' @ path)"

fun js_normalizeUrl :: "string \<Rightarrow> jsval \<Rightarrow> error + string" where
  "js_normalizeUrl origin (JStr s) = Inr (normalizeUrl origin s)"
| "js_normalizeUrl origin v = Inl TypeError"

text \<open>The output form of the normalizer: a leading slash.\<close>

definition is_normalized :: "string \<Rightarrow> bool" where
  "is_normalized u = prefix ''/'' u"

section \<open>The page and the engine's state\<close>

text \<open>
  What the engine reads from the page and the platform. An \<open>anchor\<close> is an
  \<^verbatim>\<open>a\<close> element: its \<^verbatim>\<open>data-label\<close> attribute (absent or a string) and its
  resolved \<^verbatim>\<open>href\<close>. \<open>String_trim\<close> is the platform's
  \<^verbatim>\<open>String.prototype.trim\<close>; \<open>ToString\<close> is the platform's coercion of a value
  that is not a string to a property key; \<open>JSON_parse\<close> yields \<open>None\<close> where
  \<^verbatim>\<open>JSON.parse\<close> throws \<^verbatim>\<open>SyntaxError\<close>.
\<close>

record anchor =
  data_label :: "string option"
  href :: string

record env =
  location_origin :: string
  location_pathname :: string
  document_title :: string
  meta_page_title :: "string option"
  data_page_title :: "string option"
  meta_page_url :: "string option"
  data_page_url :: "string option"
  url_resolver_links :: "(string \<times> string) list option"
  isAdmin_textContent :: "string option"
  anchors :: "anchor list"
  has_breadcrumbList :: bool
  String_trim :: "string \<Rightarrow> string"
  ToString :: "jsval \<Rightarrow> string"
  JSON_parse :: "string \<Rightarrow> jsval option"
  JSON_stringify :: "jsval \<Rightarrow> string"

text \<open>
  \<^verbatim>\<open>PAGE_HIERARCHY[url] = { label: label, level: isDashboard ? 0 : 1, parent: null }\<close>
\<close>

record HierarchyInfo =
  label :: string
  level :: nat
  parent :: "string option"

text \<open>
  The slot \<^verbatim>\<open>'app_breadcrumbs'\<close> of \<^verbatim>\<open>localStorage\<close>. A storage that is not
  \<open>available\<close> throws on every access; \<open>accepts\<close> tells whether \<^verbatim>\<open>setItem\<close>
  takes a text or throws (quota).
\<close>

record storage =
  app_breadcrumbs :: "string option"
  available :: bool
  accepts :: "string \<Rightarrow> bool"

text \<open>
  The module's variables: \<^verbatim>\<open>let breadcrumbs = []\<close>, \<^verbatim>\<open>let PAGE_HIERARCHY = {}\<close>
  (an object used as a dictionary: an association list in insertion order), the
  storage, and the children of the \<^verbatim>\<open>breadcrumb-list\<close> element, each an
  \<^verbatim>\<open>li\<close> given by the markup assigned to its \<^verbatim>\<open>innerHTML\<close>.
\<close>

record state =
  breadcrumbs :: "jsval list"
  PAGE_HIERARCHY :: "(string \<times> HierarchyInfo) list"
  localStorage :: storage
  breadcrumbList :: "string list"

text \<open>The object literal \<^verbatim>\<open>{ label: l, url: u }\<close>.\<close>

definition entry :: "string \<Rightarrow> string \<Rightarrow> jsval" where
  "entry l u = JObj [(''label'', JStr l), (''url'', JStr u)]"

text \<open>\<^verbatim>\<open>a || b\<close> where \<open>a\<close> is \<^verbatim>\<open>undefined\<close> or a string.\<close>

definition or_else :: "string option \<Rightarrow> string \<Rightarrow> string" where
  "or_else a b = (case a of None \<Rightarrow> b | Some s \<Rightarrow> if s \<noteq> [] then s else b)"

definition property_key :: "env \<Rightarrow> jsval \<Rightarrow> string" where
  "property_key env v = (case v of JStr s \<Rightarrow> s | _ \<Rightarrow> ToString env v)"

section \<open>Hierarchy resolver\<close>

text \<open>
  \<^verbatim>\<open>initializePageHierarchy\<close>: every link of the \<^verbatim>\<open>url-resolver\<close> element that
  carries \<^verbatim>\<open>data-template-url\<close> and \<^verbatim>\<open>data-label\<close> (given as pairs of
  \<^verbatim>\<open>href\<close> and label) is entered under its normalized address, then the
  current path if it has no entry yet.
\<close>

definition hierarchy_add_link ::
  "string \<Rightarrow> string \<times> string \<Rightarrow> (string \<times> HierarchyInfo) list \<Rightarrow> (string \<times> HierarchyInfo) list"
where
  "hierarchy_add_link origin link h =
     (let url = normalizeUrl origin (fst link);
          lbl = snd link;
          isDashboard = (str_includes (toLowerCase lbl) ''dashboard''
                         \<or> str_includes url ''admin_dashboard''
                         \<or> str_includes url ''employee_dashboard'')
      in AList.update url
           \<lparr>label = lbl, level = (if isDashboard then 0 else 1), parent = None\<rparr> h)"

definition initializePageHierarchy :: "env \<Rightarrow> state \<Rightarrow> state" where
  "initializePageHierarchy env st =
     (let h1 = (case url_resolver_links env of
                  None \<Rightarrow> PAGE_HIERARCHY st
                | Some links \<Rightarrow>
                    fold (hierarchy_add_link (location_origin env)) links (PAGE_HIERARCHY st));
          currentPath = normalizeUrl (location_origin env) (location_pathname env)
      in if map_of h1 currentPath = None then
           (let pageTitle = or_else (meta_page_title env)
                              (or_else (Some (document_title env)) ''Page'');
                isDashboard = (str_includes (toLowerCase pageTitle) ''dashboard''
                               \<or> str_includes currentPath ''dashboard'')
            in st\<lparr>PAGE_HIERARCHY :=
                   AList.update currentPath
                     \<lparr>label = pageTitle, level = (if isDashboard then 0 else 1), parent = None\<rparr>
                     h1\<rparr>)
         else st\<lparr>PAGE_HIERARCHY := h1\<rparr>)"

text \<open>
  \<^verbatim>\<open>function isDashboardPage(url, label = '') {
    const urlPatterns = ['dashboard', 'admin_dashboard', 'employee_dashboard'];
    const hasUrlPattern = urlPatterns.some(pattern => url.includes(pattern));
    const hasLabelPattern = label.toLowerCase().includes('dashboard');
    const hierarchyInfo = PAGE_HIERARCHY[url];
    const isRootLevel = hierarchyInfo?.level === 0;
    return hasUrlPattern || hasLabelPattern || isRootLevel;
}\<close>
\<close>

definition urlPatterns :: "string list" where
  "urlPatterns = [''dashboard'', ''admin_dashboard'', ''employee_dashboard'']"

definition isDashboardPage :: "env \<Rightarrow> state \<Rightarrow> jsval \<Rightarrow> jsval \<Rightarrow> error + bool" where
  "isDashboardPage env st url label_arg =
     (let lbl = (if label_arg = JUndefined then JStr [] else label_arg) in
      bind_e (some_e (\<lambda>pattern. js_includes url pattern) urlPatterns) (\<lambda>hasUrlPattern.
      bind_e (js_toLowerCase lbl) (\<lambda>lowered.
        let hasLabelPattern = str_includes lowered ''dashboard'';
            hierarchyInfo = map_of (PAGE_HIERARCHY st) (property_key env url);
            isRootLevel = (case hierarchyInfo of None \<Rightarrow> False | Some info \<Rightarrow> level info = 0)
        in Inr (hasUrlPattern \<or> hasLabelPattern \<or> isRootLevel))))"

text \<open>
  \<^verbatim>\<open>getDashboardPage\<close>. The role indicator is the text of the \<^verbatim>\<open>isAdmin\<close>
  element; \<^verbatim>\<open>document.querySelector('a[data-label*="..."]')\<close> is the first anchor
  whose \<^verbatim>\<open>data-label\<close> contains the text.
\<close>

definition isAdmin :: "env \<Rightarrow> bool" where
  "isAdmin env =
     (case isAdmin_textContent env of
        None \<Rightarrow> False
      | Some t \<Rightarrow> toLowerCase (String_trim env t) = ''admin'')"

definition dashboardLink :: "env \<Rightarrow> anchor option" where
  "dashboardLink env =
     find (\<lambda>a. case data_label a of
                 None \<Rightarrow> False
               | Some l \<Rightarrow>
                   str_includes l
                     (if isAdmin env then ''Admin Dashboard'' else ''Employee Dashboard''))
       (anchors env)"

definition is_dashboard_item :: "env \<Rightarrow> state \<Rightarrow> jsval \<Rightarrow> error + bool" where
  "is_dashboard_item env st x =
     bind_e (get_prop x ''url'') (\<lambda>u.
     bind_e (get_prop x ''label'') (\<lambda>l. isDashboardPage env st u l))"

definition is_dashboard_info :: "string \<times> HierarchyInfo \<Rightarrow> bool" where
  "is_dashboard_info p =
     (level (snd p) = 0 \<and> str_includes (toLowerCase (label (snd p))) ''dashboard'')"

definition fallbackDashboard :: "env \<Rightarrow> jsval" where
  "fallbackDashboard env =
     (let fallbackLabel = (if isAdmin env then ''Admin Dashboard'' else ''Employee Dashboard'');
          fallbackUrl = (if isAdmin env then ''/admin_dashboard/'' else ''/employee_dashboard/'')
      in entry fallbackLabel fallbackUrl)"

definition getDashboardPage :: "env \<Rightarrow> state \<Rightarrow> error + jsval" where
  "getDashboardPage env st =
     bind_e (find_e (is_dashboard_item env st) (breadcrumbs st)) (\<lambda>dashboardBreadcrumb.
       case (case dashboardBreadcrumb of
               None \<Rightarrow> None
             | Some d \<Rightarrow> if js_truthy d then Some d else None) of
         Some d \<Rightarrow> Inr d
       | None \<Rightarrow>
          (case find is_dashboard_info (PAGE_HIERARCHY st) of
             Some dashboardEntry \<Rightarrow>
               Inr (entry (label (snd dashboardEntry)) (fst dashboardEntry))
           | None \<Rightarrow>
              (case dashboardLink env of
                 Some a \<Rightarrow>
                   Inr (JObj [(''label'', (case data_label a of
                                             None \<Rightarrow> JNull
                                           | Some l \<Rightarrow> JStr l)),
                              (''url'', JStr (normalizeUrl (location_origin env) (href a)))])
               | None \<Rightarrow> Inr (fallbackDashboard env))))"

section \<open>Trail builder\<close>

text \<open>
  \<^verbatim>\<open>function buildBreadcrumbPath(currentLabel, currentUrl) {
    const newBreadcrumbs = [];
    if (isDashboardPage(currentUrl, currentLabel)) {
        newBreadcrumbs.push({ label: currentLabel, url: currentUrl });
    } else {
        const dashboard = getDashboardPage();
        if (normalizeUrl(dashboard.url) !== normalizeUrl(currentUrl)) {
            newBreadcrumbs.push(dashboard);
        }
        newBreadcrumbs.push({ label: currentLabel, url: currentUrl });
    }
    return newBreadcrumbs;
}\<close>
  The two arguments are strings.
\<close>

definition buildBreadcrumbPath :: "env \<Rightarrow> state \<Rightarrow> string \<Rightarrow> string \<Rightarrow> error + jsval list" where
  "buildBreadcrumbPath env st currentLabel currentUrl =
     bind_e (isDashboardPage env st (JStr currentUrl) (JStr currentLabel)) (\<lambda>isDash.
       if isDash then Inr [entry currentLabel currentUrl]
       else
         bind_e (getDashboardPage env st) (\<lambda>dashboard.
         bind_e (get_prop dashboard ''url'') (\<lambda>dashboard_url.
         bind_e (js_normalizeUrl (location_origin env) dashboard_url) (\<lambda>n.
           Inr ((if n \<noteq> normalizeUrl (location_origin env) currentUrl then [dashboard] else [])
                @ [entry currentLabel currentUrl])))))"

section \<open>Persistence store\<close>

text \<open>
  \<^verbatim>\<open>function saveBreadcrumbs() {
    try {
        localStorage.setItem(BREADCRUMB_STORAGE_KEY, JSON.stringify(breadcrumbs));
    } catch (error) {
        console.warn('Failed to save breadcrumbs to localStorage:', error);
    }
}\<close>
\<close>

definition setItem :: "storage \<Rightarrow> string \<Rightarrow> error + storage" where
  "setItem sto v =
     (if available sto \<and> accepts sto v then Inr (sto\<lparr>app_breadcrumbs := Some v\<rparr>)
      else Inl StorageError)"

definition getItem :: "storage \<Rightarrow> error + string option" where
  "getItem sto = (if available sto then Inr (app_breadcrumbs sto) else Inl StorageError)"

definition saveBreadcrumbs :: "env \<Rightarrow> state \<Rightarrow> state" where
  "saveBreadcrumbs env st =
     (case setItem (localStorage st) (JSON_stringify env (JArr (breadcrumbs st))) of
        Inr sto \<Rightarrow> st\<lparr>localStorage := sto\<rparr>
      | Inl e \<Rightarrow> st)"

text \<open>
  \<^verbatim>\<open>function loadBreadcrumbs() {
    try {
        const stored = localStorage.getItem(BREADCRUMB_STORAGE_KEY);
        if (stored) {
            breadcrumbs = JSON.parse(stored);
            breadcrumbs = breadcrumbs.filter(item =>
                item && typeof item === 'object' && item.label && item.url
            );
        }
    } catch (error) {
        console.warn('Failed to load breadcrumbs from localStorage:', error);
        breadcrumbs = [];
    }
}\<close>
  \<open>loadBreadcrumbs_try\<close> is the body of the \<^verbatim>\<open>try\<close>; \<^verbatim>\<open>filter\<close> exists on arrays
  only.
\<close>

definition stored_item_ok :: "jsval \<Rightarrow> error + bool" where
  "stored_item_ok x =
     (if \<not> js_truthy x then Inr False
      else if js_typeof x \<noteq> ''object'' then Inr False
      else bind_e (get_prop x ''label'') (\<lambda>l.
             if \<not> js_truthy l then Inr False
             else bind_e (get_prop x ''url'') (\<lambda>u. Inr (js_truthy u))))"

definition loadBreadcrumbs_try :: "env \<Rightarrow> state \<Rightarrow> error + state" where
  "loadBreadcrumbs_try env st =
     bind_e (getItem (localStorage st)) (\<lambda>stored.
       case stored of
         None \<Rightarrow> Inr st
       | Some s \<Rightarrow>
           if s = [] then Inr st
           else (case JSON_parse env s of
                   None \<Rightarrow> Inl SyntaxError
                 | Some (JArr xs) \<Rightarrow>
                     bind_e (filter_e stored_item_ok xs) (\<lambda>ys. Inr (st\<lparr>breadcrumbs := ys\<rparr>))
                 | Some v \<Rightarrow> Inl TypeError))"

definition loadBreadcrumbs :: "env \<Rightarrow> state \<Rightarrow> state" where
  "loadBreadcrumbs env st =
     (case loadBreadcrumbs_try env st of
        Inr st' \<Rightarrow> st'
      | Inl e \<Rightarrow> st\<lparr>breadcrumbs := []\<rparr>)"

section \<open>Renderer\<close>

text \<open>
  \<^verbatim>\<open>function escapeHtml(text) {
    const map = { '&': '&amp;', '<': '&lt;', '>': '&gt;', '"': '&quot;', "'": '&#039;' };
    return text.replace(/[&<>"']/g, function(m) { return map[m]; });
}\<close>
\<close>

definition escape_map :: "(char \<times> string) list" where
  \<open>escape_map =
     [(CHR ''&'', ''&amp;''), (CHR ''<'', ''&lt;''), (CHR ''>'', ''&gt;''),
      (CHR 0x22, ''&quot;''), (CHR 0x27, ''&#039;'')]\<close>

definition escapeHtml :: "string \<Rightarrow> string" where
  "escapeHtml s = concat (map (\<lambda>m. case map_of escape_map m of Some r \<Rightarrow> r | None \<Rightarrow> [m]) s)"

fun js_escapeHtml :: "jsval \<Rightarrow> error + string" where
  "js_escapeHtml (JStr s) = Inr (escapeHtml s)"
| "js_escapeHtml v = Inl TypeError"

text \<open>The fixed pieces of the two template literals of \<^verbatim>\<open>renderBreadcrumbs\<close>.\<close>

definition span_open :: string where
  \<open>span_open = ''<span class="font-medium text-gray-500">''\<close>

definition span_close :: string where
  \<open>span_close = ''</span>''\<close>

definition link_open :: string where
  \<open>link_open = ''\<newline>                <a href="''\<close>

definition link_mid :: string where
  \<open>link_mid = ''" class="text-blue-600 hover:text-blue-800 font-medium transition-colors duration-200">''\<close>

definition link_close :: string where
  \<open>link_close = ''</a>\<newline>                <svg class="flex-shrink-0 w-5 h-5 text-gray-400 mx-2" fill="currentColor" viewBox="0 0 20 20" aria-hidden="true">\<newline>                    <path fill-rule="evenodd" d="M7.293 14.707a1 1 0 010-1.414L10.586 10 7.293 6.707a1 1 0 011.414-1.414l4 4a1 1 0 010 1.414l-4 4a1 1 0 01-1.414 0z" clip-rule="evenodd"></path>\<newline>                </svg>\<newline>            ''\<close>

text \<open>The markup assigned to \<^verbatim>\<open>li.innerHTML\<close> for one element of the trail.\<close>

definition li_innerHTML :: "bool \<Rightarrow> jsval \<Rightarrow> error + string" where
  "li_innerHTML isLast x =
     (if isLast then
        bind_e (get_prop x ''label'') (\<lambda>l.
        bind_e (js_escapeHtml l) (\<lambda>el. Inr (span_open @ el @ span_close)))
      else
        bind_e (get_prop x ''url'') (\<lambda>u.
        bind_e (js_escapeHtml u) (\<lambda>eu.
        bind_e (get_prop x ''label'') (\<lambda>l.
        bind_e (js_escapeHtml l) (\<lambda>el.
          Inr (link_open @ eu @ link_mid @ el @ link_close))))))"

text \<open>The \<^verbatim>\<open>forEach\<close> loop: \<open>n\<close> is \<^verbatim>\<open>breadcrumbs.length\<close>; an exception leaves
  the children appended so far.\<close>

fun render_from :: "nat \<Rightarrow> nat \<Rightarrow> jsval list \<Rightarrow> string list \<Rightarrow> string list \<times> error option" where
  "render_from n index [] children = (children, None)"
| "render_from n index (x # xs) children =
     (case li_innerHTML (index = n - 1) x of
        Inl e \<Rightarrow> (children, Some e)
      | Inr html \<Rightarrow> render_from n (Suc index) xs (children @ [html]))"

text \<open>\<^verbatim>\<open>renderBreadcrumbs\<close>: the new state and the exception raised, if any.\<close>

definition renderBreadcrumbs :: "env \<Rightarrow> state \<Rightarrow> state \<times> error option" where
  "renderBreadcrumbs env st =
     (if \<not> has_breadcrumbList env then (st, None)
      else if length (breadcrumbs st) = 0 then (st\<lparr>breadcrumbList := []\<rparr>, None)
      else (case render_from (length (breadcrumbs st)) 0 (breadcrumbs st) [] of
              (children, err) \<Rightarrow> (st\<lparr>breadcrumbList := children\<rparr>, err)))"

section \<open>Lifecycle controller\<close>

text \<open>
  \<^verbatim>\<open>function updateBreadcrumb(label, url) {
    breadcrumbs = buildBreadcrumbPath(label, url);
    saveBreadcrumbs();
    renderBreadcrumbs();
}\<close>
\<close>

definition updateBreadcrumb :: "env \<Rightarrow> state \<Rightarrow> string \<Rightarrow> string \<Rightarrow> state \<times> error option" where
  "updateBreadcrumb env st lbl url =
     (case buildBreadcrumbPath env st lbl url of
        Inl e \<Rightarrow> (st, Some e)
      | Inr path \<Rightarrow> renderBreadcrumbs env (saveBreadcrumbs env (st\<lparr>breadcrumbs := path\<rparr>)))"

text \<open>
  \<^verbatim>\<open>function clearBreadcrumbs() {
    breadcrumbs = [];
    localStorage.removeItem(BREADCRUMB_STORAGE_KEY);
    renderBreadcrumbs();
}\<close>
  \<^verbatim>\<open>removeItem\<close> is not guarded: on a storage that cannot be reached its
  exception leaves the function.
\<close>

definition clearBreadcrumbs :: "env \<Rightarrow> state \<Rightarrow> state \<times> error option" where
  "clearBreadcrumbs env st =
     (if \<not> available (localStorage st) then (st\<lparr>breadcrumbs := []\<rparr>, Some StorageError)
      else renderBreadcrumbs env
             (st\<lparr>breadcrumbs := [],
                localStorage := (localStorage st)\<lparr>app_breadcrumbs := None\<rparr>\<rparr>))"

text \<open>The \<^verbatim>\<open>DOMContentLoaded\<close> handler: hierarchy, load, then update with the
  page's label and its normalized address.\<close>

definition pageLabel :: "env \<Rightarrow> string" where
  "pageLabel env =
     or_else (meta_page_title env) (or_else (data_page_title env) (document_title env))"

definition pageUrl :: "env \<Rightarrow> string" where
  "pageUrl env =
     normalizeUrl (location_origin env)
       (or_else (meta_page_url env) (or_else (data_page_url env) (location_pathname env)))"

definition onDOMContentLoaded :: "env \<Rightarrow> state \<Rightarrow> state \<times> error option" where
  "onDOMContentLoaded env st =
     updateBreadcrumb env (loadBreadcrumbs env (initializePageHierarchy env st))
       (pageLabel env) (pageUrl env)"

definition initial_state :: "storage \<Rightarrow> state" where
  "initial_state sto =
     \<lparr>breadcrumbs = [], PAGE_HIERARCHY = [], localStorage = sto, breadcrumbList = []\<rparr>"

section \<open>The snapshot accessor, with references\<close>

text \<open>
  \<^verbatim>\<open>getCurrentPath: () => [...breadcrumbs]\<close>. What a caller can do with the
  returned array depends on which objects it shares with the engine, so arrays
  and entry objects live in a heap here: an array holds references to its
  elements. \<open>breadcrumbs_ref\<close> is the array the variable \<^verbatim>\<open>breadcrumbs\<close> points to.
\<close>

datatype cell = ArrayCell "nat list" | ObjectCell "(string \<times> jsval) list"

record heap =
  cells :: "(nat \<times> cell) list"
  next_ref :: nat
  breadcrumbs_ref :: nat

definition array_elems :: "heap \<Rightarrow> nat \<Rightarrow> nat list" where
  "array_elems h r = (case map_of (cells h) r of Some (ArrayCell xs) \<Rightarrow> xs | _ \<Rightarrow> [])"

definition deref :: "heap \<Rightarrow> nat \<Rightarrow> jsval" where
  "deref h r = (case map_of (cells h) r of Some (ObjectCell kvs) \<Rightarrow> JObj kvs | _ \<Rightarrow> JUndefined)"

text \<open>The trail as values: the elements of the engine's array, dereferenced.\<close>

definition trail_of :: "heap \<Rightarrow> jsval list" where
  "trail_of h = map (deref h) (array_elems h (breadcrumbs_ref h))"

text \<open>The spread allocates a new array with the same element references.\<close>

definition getCurrentPath :: "heap \<Rightarrow> nat \<times> heap" where
  "getCurrentPath h =
     (next_ref h,
      h\<lparr>cells := AList.update (next_ref h) (ArrayCell (array_elems h (breadcrumbs_ref h))) (cells h),
        next_ref := Suc (next_ref h)\<rparr>)"

text \<open>What a caller can do to the array it got (any change of its elements:
  \<^verbatim>\<open>push\<close>, \<^verbatim>\<open>pop\<close>, \<^verbatim>\<open>a[i] = x\<close>, \<^verbatim>\<open>a.length = 0\<close>) and to an object it
  reaches through it (\<^verbatim>\<open>a[i].k = v\<close>).\<close>

definition array_write :: "nat \<Rightarrow> nat list \<Rightarrow> heap \<Rightarrow> heap" where
  "array_write r xs h = h\<lparr>cells := AList.update r (ArrayCell xs) (cells h)\<rparr>"

definition object_store :: "nat \<Rightarrow> string \<Rightarrow> jsval \<Rightarrow> heap \<Rightarrow> heap" where
  "object_store r k v h =
     (case map_of (cells h) r of
        Some (ObjectCell kvs) \<Rightarrow>
          h\<lparr>cells := AList.update r (ObjectCell (AList.update k v kvs)) (cells h)\<rparr>
      | _ \<Rightarrow> h)"

text \<open>The allocator's invariant: every reference in use lies below \<open>next_ref\<close>.\<close>

definition heap_ok :: "heap \<Rightarrow> bool" where
  "heap_ok h =
     (breadcrumbs_ref h < next_ref h
      \<and> (\<forall>p \<in> set (cells h).
            fst p < next_ref h
            \<and> (case snd p of ArrayCell xs \<Rightarrow> \<forall>x \<in> set xs. x < next_ref h | ObjectCell kvs \<Rightarrow> True)))"

section \<open>Well-typed trails\<close>

text \<open>
  A breadcrumb entry as the data model has it: an object whose \<^verbatim>\<open>label\<close> and
  \<^verbatim>\<open>url\<close> are strings. \<open>str_prop\<close> reads a string property.
\<close>

definition str_prop :: "jsval \<Rightarrow> string \<Rightarrow> string option" where
  "str_prop x k =
     (case x of
        JObj kvs \<Rightarrow> (case map_of kvs k of Some (JStr s) \<Rightarrow> Some s | _ \<Rightarrow> None)
      | _ \<Rightarrow> None)"

definition is_entry :: "jsval \<Rightarrow> bool" where
  "is_entry x = (str_prop x ''label'' \<noteq> None \<and> str_prop x ''url'' \<noteq> None)"

definition wf_trail :: "jsval list \<Rightarrow> bool" where
  "wf_trail xs = list_all is_entry xs"

section \<open>Predicates of the specification\<close>

text \<open>The normalized address of an element of a trail, as \<^verbatim>\<open>normalizeUrl(x.url)\<close>
  computes it, and the trail invariant that no two adjacent elements share it.\<close>

definition entry_norm_url :: "string \<Rightarrow> jsval \<Rightarrow> error + string" where
  "entry_norm_url origin x = bind_e (get_prop x ''url'') (js_normalizeUrl origin)"

fun no_adjacent_equal :: "string \<Rightarrow> jsval list \<Rightarrow> bool" where
  "no_adjacent_equal origin (x # y # zs) =
     (entry_norm_url origin x \<noteq> entry_norm_url origin y \<and> no_adjacent_equal origin (y # zs))"
| "no_adjacent_equal origin xs = True"

text \<open>Every element is an entry whose \<^verbatim>\<open>url\<close> is in the normalizer's output form.\<close>

definition url_normalized :: "jsval \<Rightarrow> bool" where
  "url_normalized x = (case str_prop x ''url'' of Some u \<Rightarrow> is_normalized u | None \<Rightarrow> False)"

definition urls_normalized :: "jsval list \<Rightarrow> bool" where
  "urls_normalized xs = list_all url_normalized xs"

text \<open>What the validation of \<^verbatim>\<open>loadBreadcrumbs\<close> lets through: an object whose
  \<^verbatim>\<open>label\<close> and \<^verbatim>\<open>url\<close> are truthy.\<close>

definition kept_on_load :: "jsval \<Rightarrow> bool" where
  "kept_on_load x =
     (case x of
        JObj kvs \<Rightarrow>
          (case map_of kvs ''label'' of
             None \<Rightarrow> False
           | Some l \<Rightarrow>
               js_truthy l \<and> (case map_of kvs ''url'' of None \<Rightarrow> False | Some u \<Rightarrow> js_truthy u))
      | _ \<Rightarrow> False)"

text \<open>A valid entry of a persisted trail: an object whose \<^verbatim>\<open>label\<close> and
  \<^verbatim>\<open>url\<close> are non-empty strings.\<close>

definition valid_entry :: "jsval \<Rightarrow> bool" where
  "valid_entry x =
     (case str_prop x ''label'' of
        None \<Rightarrow> False
      | Some l \<Rightarrow>
          l \<noteq> [] \<and> (case str_prop x ''url'' of None \<Rightarrow> False | Some u \<Rightarrow> u \<noteq> []))"

text \<open>The characters that open or close markup and attribute values.\<close>

definition markup_chars :: "string \<Rightarrow> string" where
  \<open>markup_chars s = filter (\<lambda>c. c \<in> set [CHR ''<'', CHR ''>'', CHR 0x22, CHR 0x27]) s\<close>

text \<open>
  Dashboard resolution as the specification words it, for comparison with
  \<open>getDashboardPage\<close>: (a) an entry of the in-memory trail that satisfies
  \<open>isDashboardPage\<close>; (b) the first hierarchy entry with level 0; (c) a known
  route for the role; (d) the fixed default. Steps (a), (c) and (d) are taken
  as the code has them; step (b) follows the words of the specification.
\<close>

definition resolveDashboard_spec :: "env \<Rightarrow> state \<Rightarrow> error + jsval" where
  "resolveDashboard_spec env st =
     bind_e (find_e (is_dashboard_item env st) (breadcrumbs st)) (\<lambda>found.
       case found of
         Some d \<Rightarrow> Inr d
       | None \<Rightarrow>
          (case find (\<lambda>p. level (snd p) = 0) (PAGE_HIERARCHY st) of
             Some p \<Rightarrow> Inr (entry (label (snd p)) (fst p))
           | None \<Rightarrow>
              (case dashboardLink env of
                 Some a \<Rightarrow>
                   Inr (JObj [(''label'', (case data_label a of
                                             None \<Rightarrow> JNull
                                           | Some l \<Rightarrow> JStr l)),
                              (''url'', JStr (normalizeUrl (location_origin env) (href a)))])
               | None \<Rightarrow> Inr (fallbackDashboard env))))"

section \<open>A concrete page\<close>

text \<open>
  The page of the examples below: origin \<open>http://h\<close>, the page
  \<open>/employees/5/edit/\<close> titled \<open>Edit Employee\<close>, no role indicator, no links, a
  working storage. Its \<open>JSON\<close> functions are given on the texts the examples
  use, and its \<open>trim\<close> strips blanks, which is what every platform does on the
  role text of the examples.
\<close>

definition blank_trim :: "string \<Rightarrow> string" where
  "blank_trim s = rev (dropWhile (\<lambda>c. c = CHR '' '') (rev (dropWhile (\<lambda>c. c = CHR '' '') s)))"

definition text_A :: string where
  \<open>text_A = ''[{"label":"A","url":"/a"}]''\<close>

definition text_DA :: string where
  \<open>text_DA = ''[{"label":"Admin Dashboard","url":"/admin_dashboard/"},{"label":"A","url":"/a"}]''\<close>

definition demo_stringify :: "jsval \<Rightarrow> string" where
  "demo_stringify v =
     (if v = JArr [] then ''[]''
      else if v = JArr [entry ''A'' ''/a''] then text_A
      else if v = JArr [entry ''Admin Dashboard'' ''/admin_dashboard/'', entry ''A'' ''/a'']
        then text_DA
      else ''null'')"

definition demo_parse :: "string \<Rightarrow> jsval option" where
  \<open>demo_parse s =
     (if s = ''[]'' then Some (JArr [])
      else if s = text_A then Some (JArr [entry ''A'' ''/a''])
      else if s = text_DA
        then Some (JArr [entry ''Admin Dashboard'' ''/admin_dashboard/'', entry ''A'' ''/a''])
      else if s = ''[{"label":"A"}]'' then Some (JArr [JObj [(''label'', JStr ''A'')]])
      else if s = ''[{"label":"A","url":"/a"},{"label":"","url":"/b"},null,7]''
        then Some (JArr [entry ''A'' ''/a'', entry '''' ''/b'', JNull, JNum 7])
      else if s = ''[{"label":1,"url":2}]''
        then Some (JArr [JObj [(''label'', JNum 1), (''url'', JNum 2)]])
      else if s = ''{"label":"A","url":"/a"}'' then Some (entry ''A'' ''/a'')
      else if s = ''null'' then Some JNull
      else None)\<close>

definition demo_storage :: storage where
  "demo_storage = \<lparr>app_breadcrumbs = None, available = True, accepts = (\<lambda>v. True)\<rparr>"

definition demo_env :: env where
  "demo_env =
     \<lparr>location_origin = ''http://h'',
      location_pathname = ''/employees/5/edit/'',
      document_title = ''Edit Employee'',
      meta_page_title = None,
      data_page_title = None,
      meta_page_url = None,
      data_page_url = None,
      url_resolver_links = None,
      isAdmin_textContent = None,
      anchors = [],
      has_breadcrumbList = True,
      String_trim = blank_trim,
      ToString = (\<lambda>v. ''[object Object]''),
      JSON_parse = demo_parse,
      JSON_stringify = demo_stringify\<rparr>"

definition demo_state :: state where
  "demo_state = initial_state demo_storage"

text \<open>Two variants of the page. On \<open>home_env\<close> the route catalog declares the
  admin dashboard under the label \<open>Home\<close> and the current page is \<open>/profile/\<close>;
  on \<open>admin_env\<close> the catalog declares it as \<open>Admin Dashboard\<close> and the role
  indicator says admin.\<close>

definition home_env :: env where
  "home_env =
     demo_env\<lparr>location_pathname := ''/profile/'',
              document_title := ''Profile'',
              url_resolver_links := Some [(''http://h/admin_dashboard/'', ''Home'')],
              anchors := [\<lparr>data_label = Some ''Home'', href = ''http://h/admin_dashboard/''\<rparr>]\<rparr>"

definition admin_env :: env where
  "admin_env =
     demo_env\<lparr>url_resolver_links := Some [(''http://h/admin_dashboard/'', ''Admin Dashboard'')],
              isAdmin_textContent := Some '' Admin '',
              anchors := [\<lparr>data_label = Some ''Admin Dashboard'',
                           href = ''http://h/admin_dashboard/''\<rparr>]\<rparr>"

section \<open>Properties of the normalizer\<close>

lemma str_remove_first_absent:
  "\<not> str_includes s pat \<Longrightarrow> str_remove_first pat s = s"
  by (induction s) auto

lemma str_remove_first_at_start:
  "prefix pat s \<Longrightarrow> str_remove_first pat s = drop (length pat) s"
  by (cases s) auto

lemma str_remove_first_prefix: "str_remove_first pat (pat @ s) = s"
  by (simp add: str_remove_first_at_start)

lemma normalizeUrl_is_normalized: "is_normalized (normalizeUrl origin url)"
  by (simp add: normalizeUrl_def is_normalized_def Let_def)

lemma normalizeUrl_fixed:
  "is_normalized u \<Longrightarrow> \<not> str_includes u origin \<Longrightarrow> normalizeUrl origin u = u"
  by (simp add: normalizeUrl_def is_normalized_def str_remove_first_absent)

lemma normalizeUrl_range: "(\<exists>v. normalizeUrl origin v = u) \<longleftrightarrow> is_normalized u"
proof
  assume "\<exists>v. normalizeUrl origin v = u"
  then show "is_normalized u"
    using normalizeUrl_is_normalized by blast
next
  assume "is_normalized u"
  then have "normalizeUrl origin (origin @ u) = u"
    by (simp add: normalizeUrl_def is_normalized_def str_remove_first_prefix)
  then show "\<exists>v. normalizeUrl origin v = u" ..
qed

text \<open>
  C7 (as stated, refuted). The string \<open>/go?a=http://h/x&b=http://h/y\<close> is an
  output of the normalizer for the origin \<open>http://h\<close> (it is what the absolute
  address of that link normalizes to), yet normalizing it once and normalizing
  it twice differ: each call removes only the first occurrence of the origin.
\<close>

theorem normalizeUrl_not_idempotent:
  "normalizeUrl ''http://h'' ''http://h/go?a=http://h/x&b=http://h/y''
     = ''/go?a=http://h/x&b=http://h/y''
   \<and> normalizeUrl ''http://h'' ''/go?a=http://h/x&b=http://h/y''
     = ''/go?a=/x&b=http://h/y''
   \<and> normalizeUrl ''http://h'' ''/go?a=/x&b=http://h/y''
     = ''/go?a=/x&b=/y''
   \<and> normalizeUrl ''http://h'' (normalizeUrl ''http://h'' ''/go?a=http://h/x&b=http://h/y'')
     \<noteq> normalizeUrl ''http://h'' ''/go?a=http://h/x&b=http://h/y''"
  by (simp add: normalizeUrl_def)

text \<open>
  C7 (amended). Normalizing is idempotent at every address whose normalization
  no longer contains the origin; and an address in output form (leading slash)
  that does not contain the origin is a fixed point of the normalizer.
\<close>

theorem normalizeUrl_idempotent:
  "(\<not> str_includes (normalizeUrl origin u) origin \<longrightarrow>
      normalizeUrl origin (normalizeUrl origin u) = normalizeUrl origin u)
   \<and> (is_normalized u \<and> \<not> str_includes u origin \<longrightarrow> normalizeUrl origin u = u)"
  using normalizeUrl_fixed normalizeUrl_is_normalized by blast

theorem normalizeUrl_idempotent_witness:
  "\<not> str_includes (normalizeUrl ''http://h'' ''http://h/employees/5/edit/'') ''http://h''
   \<and> normalizeUrl ''http://h'' ''http://h/employees/5/edit/'' = ''/employees/5/edit/''
   \<and> normalizeUrl ''http://h'' (normalizeUrl ''http://h'' ''http://h/employees/5/edit/'')
       = ''/employees/5/edit/''
   \<and> is_normalized ''/employees/5/edit/''
   \<and> normalizeUrl ''http://h'' ''/employees/5/edit/'' = ''/employees/5/edit/''"
proof -
  have n: "normalizeUrl ''http://h'' ''http://h/employees/5/edit/'' = ''/employees/5/edit/''"
    by (simp add: normalizeUrl_def)
  have a: "\<not> str_includes ''/employees/5/edit/'' ''http://h''"
    by simp
  have b: "is_normalized ''/employees/5/edit/''"
    by (simp add: is_normalized_def)
  from normalizeUrl_idempotent [where origin = "''http://h''" and u = "''http://h/employees/5/edit/''"] n a
  have c: "normalizeUrl ''http://h'' (normalizeUrl ''http://h'' ''http://h/employees/5/edit/'')
       = ''/employees/5/edit/''"
    by simp
  from normalizeUrl_idempotent [where origin = "''http://h''" and u = "''/employees/5/edit/''"] a b
  have d: "normalizeUrl ''http://h'' ''/employees/5/edit/'' = ''/employees/5/edit/''"
    by simp
  from n a b c d show ?thesis by simp
qed

section \<open>Loops whose callback does not throw\<close>

lemma some_e_pure: "some_e (\<lambda>x. Inr (P x)) xs = Inr (list_ex P xs)"
  by (induction xs) (auto simp: bind_e_def)

lemma find_e_pure:
  "(\<forall>x \<in> set xs. f x = Inr (P x)) \<Longrightarrow> find_e f xs = Inr (find P xs)"
  by (induction xs) (auto simp: bind_e_def)

lemma filter_e_pure:
  "(\<forall>x \<in> set xs. f x = Inr (P x)) \<Longrightarrow> filter_e f xs = Inr (filter P xs)"
  by (induction xs) (auto simp: bind_e_def)

lemma find_e_total:
  "(\<forall>x \<in> set xs. \<exists>b. f x = Inr b) \<Longrightarrow> \<exists>r. find_e f xs = Inr r"
  by (induction xs) (auto simp: bind_e_def)

lemma find_e_first:
  "find_e f xs = Inr (Some d) \<Longrightarrow>
     \<exists>ys zs. xs = ys @ d # zs \<and> f d = Inr True \<and> (\<forall>y \<in> set ys. f y = Inr False)"
proof (induction xs)
  case Nil
  then show ?case by simp
next
  case (Cons x xs)
  show ?case
  proof (cases "f x")
    case (Inl e)
    with Cons.prems show ?thesis by (simp add: bind_e_def)
  next
    case (Inr b)
    show ?thesis
    proof (cases b)
      case True
      with Inr Cons.prems have "x # xs = [] @ d # xs \<and> f d = Inr True"
        by (simp add: bind_e_def)
      then show ?thesis by fastforce
    next
      case False
      with Inr Cons.prems have "find_e f xs = Inr (Some d)"
        by (simp add: bind_e_def)
      with Cons.IH obtain ys zs where "xs = ys @ d # zs" and "f d = Inr True"
        and "\<forall>y \<in> set ys. f y = Inr False"
        by blast
      with Inr False have "x # xs = (x # ys) @ d # zs \<and> f d = Inr True
          \<and> (\<forall>y \<in> set (x # ys). f y = Inr False)"
        by simp
      then show ?thesis by blast
    qed
  qed
qed

lemma find_e_Some_mem: "find_e f xs = Inr (Some d) \<Longrightarrow> d \<in> set xs"
  by (induction xs) (auto simp: bind_e_def split: sum.splits if_splits)

section \<open>Dashboard resolution on a well-typed trail\<close>

lemma is_entryE:
  assumes "is_entry x"
  obtains kvs l u where "x = JObj kvs" and "map_of kvs ''label'' = Some (JStr l)"
    and "map_of kvs ''url'' = Some (JStr u)"
  using assms
  by (auto simp: is_entry_def str_prop_def split: jsval.splits option.splits)

lemma is_entry_entry: "is_entry (entry l u)"
  by (simp add: is_entry_def str_prop_def entry_def)

lemma is_entry_url:
  assumes "is_entry x"
  shows "\<exists>u. get_prop x ''url'' = Inr (JStr u) \<and> str_prop x ''url'' = Some u"
proof -
  from assms obtain kvs l u where "x = JObj kvs" and "map_of kvs ''label'' = Some (JStr l)"
    and "map_of kvs ''url'' = Some (JStr u)"
    by (rule is_entryE)
  then show ?thesis by (simp add: str_prop_def)
qed

lemma isDashboardPage_strings:
  "isDashboardPage env st (JStr u) (JStr l) =
     Inr (list_ex (str_includes u) urlPatterns
          \<or> str_includes (toLowerCase l) ''dashboard''
          \<or> (case map_of (PAGE_HIERARCHY st) u of None \<Rightarrow> False | Some info \<Rightarrow> level info = 0))"
  by (simp add: isDashboardPage_def some_e_pure bind_e_def property_key_def Let_def)

lemma is_dashboard_item_total:
  assumes "is_entry x"
  shows "\<exists>b. is_dashboard_item env st x = Inr b"
proof -
  from assms obtain kvs l u where "x = JObj kvs" and "map_of kvs ''label'' = Some (JStr l)"
    and "map_of kvs ''url'' = Some (JStr u)" by (rule is_entryE)
  then show ?thesis
    by (simp add: is_dashboard_item_def bind_e_def isDashboardPage_strings)
qed

lemma find_dashboard_item_total:
  assumes "wf_trail (breadcrumbs st)"
  shows "\<exists>r. find_e (is_dashboard_item env st) (breadcrumbs st) = Inr r"
proof (rule find_e_total)
  show "\<forall>x \<in> set (breadcrumbs st). \<exists>b. is_dashboard_item env st x = Inr b"
    using assms is_dashboard_item_total by (auto simp: wf_trail_def list_all_iff)
qed

lemma is_entry_truthy: "is_entry x \<Longrightarrow> js_truthy x"
  by (erule is_entryE) simp

lemma dashboardLink_label:
  "dashboardLink env = Some a \<Longrightarrow> \<exists>l. data_label a = Some l"
  by (auto simp: dashboardLink_def find_Some_iff split: option.splits)

text \<open>The four sources of the dashboard, in the order the code tries them.\<close>

lemma getDashboardPage_trail:
  assumes "find_e (is_dashboard_item env st) (breadcrumbs st) = Inr (Some d)"
    and "js_truthy d"
  shows "getDashboardPage env st = Inr d"
  using assms by (simp add: getDashboardPage_def bind_e_def)

lemma getDashboardPage_hierarchy:
  assumes "find_e (is_dashboard_item env st) (breadcrumbs st) = Inr None"
    and "find is_dashboard_info (PAGE_HIERARCHY st) = Some p"
  shows "getDashboardPage env st = Inr (entry (label (snd p)) (fst p))"
  using assms by (simp add: getDashboardPage_def bind_e_def)

lemma getDashboardPage_link:
  assumes "find_e (is_dashboard_item env st) (breadcrumbs st) = Inr None"
    and "find is_dashboard_info (PAGE_HIERARCHY st) = None"
    and "dashboardLink env = Some a" and "data_label a = Some l"
  shows "getDashboardPage env st = Inr (entry l (normalizeUrl (location_origin env) (href a)))"
  using assms by (simp add: getDashboardPage_def bind_e_def entry_def)

lemma getDashboardPage_fallback:
  assumes "find_e (is_dashboard_item env st) (breadcrumbs st) = Inr None"
    and "find is_dashboard_info (PAGE_HIERARCHY st) = None"
    and "dashboardLink env = None"
  shows "getDashboardPage env st = Inr (fallbackDashboard env)"
  using assms by (simp add: getDashboardPage_def bind_e_def)

lemma getDashboardPage_cases:
  assumes "find_e (is_dashboard_item env st) (breadcrumbs st) = Inr r"
    and "\<forall>d. r = Some d \<longrightarrow> js_truthy d"
  shows "(\<exists>d. r = Some d \<and> getDashboardPage env st = Inr d)
       \<or> (\<exists>p. find is_dashboard_info (PAGE_HIERARCHY st) = Some p
              \<and> getDashboardPage env st = Inr (entry (label (snd p)) (fst p)))
       \<or> (\<exists>a l. dashboardLink env = Some a \<and> data_label a = Some l
              \<and> getDashboardPage env st
                  = Inr (entry l (normalizeUrl (location_origin env) (href a))))
       \<or> getDashboardPage env st = Inr (fallbackDashboard env)"
proof (cases r)
  case (Some d)
  with assms show ?thesis by (simp add: getDashboardPage_trail)
next
  case None
  note r = this
  show ?thesis
  proof (cases "find is_dashboard_info (PAGE_HIERARCHY st)")
    case (Some p)
    with assms r show ?thesis by (simp add: getDashboardPage_hierarchy)
  next
    case None
    note h = this
    show ?thesis
    proof (cases "dashboardLink env")
      case None
      with assms r h show ?thesis by (simp add: getDashboardPage_fallback)
    next
      case (Some a)
      then obtain l where "data_label a = Some l"
        using dashboardLink_label by blast
      with assms r h Some show ?thesis by (simp add: getDashboardPage_link)
    qed
  qed
qed

lemma is_entry_fallback: "is_entry (fallbackDashboard env)"
  by (simp add: fallbackDashboard_def Let_def is_entry_entry)

lemma getDashboardPage_wf:
  assumes "wf_trail (breadcrumbs st)"
  shows "\<exists>d. getDashboardPage env st = Inr d \<and> is_entry d"
proof -
  from assms obtain r where r: "find_e (is_dashboard_item env st) (breadcrumbs st) = Inr r"
    using find_dashboard_item_total by blast
  have mem: "\<forall>d. r = Some d \<longrightarrow> is_entry d"
    using r assms find_e_Some_mem by (fastforce simp: wf_trail_def list_all_iff)
  then have "\<forall>d. r = Some d \<longrightarrow> js_truthy d"
    using is_entry_truthy by blast
  from getDashboardPage_cases [OF r this] mem show ?thesis
    using is_entry_entry is_entry_fallback by auto
qed

section \<open>The trail builder\<close>

lemma build_dashboard:
  assumes "isDashboardPage env st (JStr currentUrl) (JStr currentLabel) = Inr True"
  shows "buildBreadcrumbPath env st currentLabel currentUrl = Inr [entry currentLabel currentUrl]"
  using assms by (simp add: buildBreadcrumbPath_def bind_e_def)

lemma build_shape:
  assumes "buildBreadcrumbPath env st currentLabel currentUrl = Inr t"
  shows "t = [entry currentLabel currentUrl]
       \<or> (\<exists>d. t = [d, entry currentLabel currentUrl]
              \<and> getDashboardPage env st = Inr d
              \<and> entry_norm_url (location_origin env) d
                  \<noteq> Inr (normalizeUrl (location_origin env) currentUrl))"
  using assms
  by (auto simp: buildBreadcrumbPath_def bind_e_def entry_norm_url_def
      split: sum.splits if_splits)

lemma build_total:
  assumes "wf_trail (breadcrumbs st)"
  shows "\<exists>t. buildBreadcrumbPath env st currentLabel currentUrl = Inr t"
proof -
  obtain b where b: "isDashboardPage env st (JStr currentUrl) (JStr currentLabel) = Inr b"
    using isDashboardPage_strings by blast
  from assms obtain d where d: "getDashboardPage env st = Inr d" and "is_entry d"
    using getDashboardPage_wf by blast
  then obtain u where "get_prop d ''url'' = Inr (JStr u)"
    using is_entry_url by blast
  with b d show ?thesis
    by (simp add: buildBreadcrumbPath_def bind_e_def)
qed

lemma entry_norm_url_entry:
  "entry_norm_url origin (entry l u) = Inr (normalizeUrl origin u)"
  by (simp add: entry_norm_url_def entry_def bind_e_def)

text \<open>Well-typed trails are the trails the engine makes: the trail is empty
  when the script starts, and \<open>updateBreadcrumb\<close> with string arguments builds
  a well-typed trail from a well-typed one.\<close>

lemma build_wf:
  assumes "wf_trail (breadcrumbs st)"
    and "buildBreadcrumbPath env st currentLabel currentUrl = Inr t"
  shows "wf_trail t"
proof -
  from assms(1) obtain d where "getDashboardPage env st = Inr d" and "is_entry d"
    using getDashboardPage_wf by blast
  with build_shape [OF assms(2)] show ?thesis
    by (auto simp: wf_trail_def is_entry_entry)
qed

lemma initial_state_wf: "wf_trail (breadcrumbs (initial_state sto))"
  by (simp add: wf_trail_def initial_state_def)

lemmas eval_defs =
  buildBreadcrumbPath_def isDashboardPage_def getDashboardPage_def is_dashboard_item_def
  is_dashboard_info_def dashboardLink_def isAdmin_def fallbackDashboard_def entry_def
  normalizeUrl_def property_key_def bind_e_def urlPatterns_def toLowerCase_def lower_char_def
  blank_trim_def or_else_def

lemmas demo_defs =
  demo_env_def demo_state_def demo_storage_def initial_state_def

text \<open>
  C1 (as stated, refuted). \<^verbatim>\<open>update("Admin Dashboard", "http://h/admin_dashboard/")\<close>
  on the page of origin \<open>http://h\<close>: the address is a dashboard page, the trail
  built is the single entry with the address as passed, and that is not the
  entry with the normalized address \<open>/admin_dashboard/\<close>.
\<close>

theorem build_dashboard_not_normalized:
  "isDashboardPage demo_env demo_state (JStr ''http://h/admin_dashboard/'')
       (JStr ''Admin Dashboard'') = Inr True
   \<and> buildBreadcrumbPath demo_env demo_state ''Admin Dashboard'' ''http://h/admin_dashboard/''
       = Inr [entry ''Admin Dashboard'' ''http://h/admin_dashboard/'']
   \<and> normalizeUrl (location_origin demo_env) ''http://h/admin_dashboard/''
       = ''/admin_dashboard/''
   \<and> buildBreadcrumbPath demo_env demo_state ''Admin Dashboard'' ''http://h/admin_dashboard/''
       \<noteq> Inr [entry ''Admin Dashboard''
                 (normalizeUrl (location_origin demo_env) ''http://h/admin_dashboard/'')]"
  by (simp add: eval_defs demo_defs)

text \<open>
  C1 (amended). If \<open>isDashboardPage(currentUrl, currentLabel)\<close> is true, the
  trail built is exactly the one entry \<open>{label: currentLabel, url: currentUrl}\<close>,
  the address as passed; it is the entry with the normalized address exactly
  when the address passed is a fixed point of the normalizer.
\<close>

theorem build_dashboard_single:
  "isDashboardPage env st (JStr currentUrl) (JStr currentLabel) = Inr True \<Longrightarrow>
     buildBreadcrumbPath env st currentLabel currentUrl = Inr [entry currentLabel currentUrl]
     \<and> (buildBreadcrumbPath env st currentLabel currentUrl
            = Inr [entry currentLabel (normalizeUrl (location_origin env) currentUrl)]
          \<longleftrightarrow> normalizeUrl (location_origin env) currentUrl = currentUrl)"
  by (auto simp: build_dashboard entry_def)

theorem build_dashboard_single_witness:
  "isDashboardPage demo_env demo_state (JStr ''/employee_dashboard/'')
       (JStr ''Employee Dashboard'') = Inr True
   \<and> normalizeUrl (location_origin demo_env) ''/employee_dashboard/'' = ''/employee_dashboard/''
   \<and> buildBreadcrumbPath demo_env demo_state ''Employee Dashboard'' ''/employee_dashboard/''
       = Inr [entry ''Employee Dashboard'' ''/employee_dashboard/'']
   \<and> buildBreadcrumbPath demo_env demo_state ''Employee Dashboard'' ''/employee_dashboard/''
       = Inr [entry ''Employee Dashboard''
                (normalizeUrl (location_origin demo_env) ''/employee_dashboard/'')]"
proof -
  have d: "isDashboardPage demo_env demo_state (JStr ''/employee_dashboard/'')
       (JStr ''Employee Dashboard'') = Inr True"
    by (simp add: eval_defs demo_defs)
  have n: "normalizeUrl (location_origin demo_env) ''/employee_dashboard/''
       = ''/employee_dashboard/''"
    by (simp add: normalizeUrl_def demo_env_def)
  from build_dashboard_single [OF d] n d show ?thesis
    by simp
qed

text \<open>
  C10 (amended). On every state whose trail is well typed (entries with string
  label and address), \<open>buildBreadcrumbPath\<close> returns; and whenever it returns,
  in any state, the trail is not empty and its last element is exactly
  \<open>{label: currentLabel, url: currentUrl}\<close>, both arguments as passed. (On a
  trail that is not well typed it may raise instead, as shown with the
  persistence store below.)
\<close>

theorem build_last_is_current:
  "(wf_trail (breadcrumbs st) \<longrightarrow>
      (\<exists>t. buildBreadcrumbPath env st currentLabel currentUrl = Inr t))
   \<and> (\<forall>t. buildBreadcrumbPath env st currentLabel currentUrl = Inr t \<longrightarrow>
          t \<noteq> [] \<and> last t = entry currentLabel currentUrl)"
proof (intro conjI impI allI)
  assume "wf_trail (breadcrumbs st)"
  then show "\<exists>t. buildBreadcrumbPath env st currentLabel currentUrl = Inr t"
    by (rule build_total)
next
  fix t
  assume "buildBreadcrumbPath env st currentLabel currentUrl = Inr t"
  from build_shape [OF this] show "t \<noteq> []" by auto
next
  fix t
  assume "buildBreadcrumbPath env st currentLabel currentUrl = Inr t"
  from build_shape [OF this] show "last t = entry currentLabel currentUrl" by auto
qed

theorem build_last_is_current_witness:
  "wf_trail (breadcrumbs demo_state)
   \<and> buildBreadcrumbPath demo_env demo_state ''About'' ''about''
       = Inr [entry ''Employee Dashboard'' ''/employee_dashboard/'', entry ''About'' ''about'']
   \<and> (\<exists>t. buildBreadcrumbPath demo_env demo_state ''About'' ''about'' = Inr t
          \<and> t \<noteq> [] \<and> last t = entry ''About'' ''about'')"
proof -
  have w: "wf_trail (breadcrumbs demo_state)"
    by (simp add: wf_trail_def demo_defs)
  have v: "buildBreadcrumbPath demo_env demo_state ''About'' ''about''
       = Inr [entry ''Employee Dashboard'' ''/employee_dashboard/'', entry ''About'' ''about'']"
    by (simp add: eval_defs demo_defs)
  from build_last_is_current [of demo_state demo_env "''About''" "''about''"] w
  have "\<exists>t. buildBreadcrumbPath demo_env demo_state ''About'' ''about'' = Inr t
          \<and> t \<noteq> [] \<and> last t = entry ''About'' ''about''"
    by blast
  with w v show ?thesis by simp
qed

text \<open>
  C2. On every state whose trail is well typed \<open>buildBreadcrumbPath\<close> returns;
  and whenever it returns, in any state, the trail has at most two elements, no
  two adjacent elements have equal normalized addresses, and the last element
  is the current page.
\<close>

theorem build_trail_invariant:
  "(wf_trail (breadcrumbs st) \<longrightarrow>
      (\<exists>t. buildBreadcrumbPath env st currentLabel currentUrl = Inr t))
   \<and> (\<forall>t. buildBreadcrumbPath env st currentLabel currentUrl = Inr t \<longrightarrow>
          length t \<le> 2
          \<and> no_adjacent_equal (location_origin env) t
          \<and> last t = entry currentLabel currentUrl)"
proof (intro conjI impI allI)
  assume "wf_trail (breadcrumbs st)"
  then show "\<exists>t. buildBreadcrumbPath env st currentLabel currentUrl = Inr t"
    by (rule build_total)
next
  fix t
  assume "buildBreadcrumbPath env st currentLabel currentUrl = Inr t"
  from build_shape [OF this] show "length t \<le> 2" by auto
next
  fix t
  assume "buildBreadcrumbPath env st currentLabel currentUrl = Inr t"
  from build_shape [OF this] show "no_adjacent_equal (location_origin env) t"
    by (auto simp: entry_norm_url_entry)
next
  fix t
  assume "buildBreadcrumbPath env st currentLabel currentUrl = Inr t"
  from build_shape [OF this] show "last t = entry currentLabel currentUrl" by auto
qed

text \<open>The witness is a page where the ancestor is suppressed: the trail in
  memory holds the dashboard \<open>/home\<close>, and the current page is passed by its
  absolute address \<open>http://h/home\<close>.\<close>

theorem build_trail_invariant_witness:
  "wf_trail (breadcrumbs (demo_state\<lparr>breadcrumbs := [entry ''My Dashboard'' ''/home'']\<rparr>))
   \<and> getDashboardPage demo_env (demo_state\<lparr>breadcrumbs := [entry ''My Dashboard'' ''/home'']\<rparr>)
       = Inr (entry ''My Dashboard'' ''/home'')
   \<and> buildBreadcrumbPath demo_env (demo_state\<lparr>breadcrumbs := [entry ''My Dashboard'' ''/home'']\<rparr>)
        ''Home'' ''http://h/home'' = Inr [entry ''Home'' ''http://h/home'']
   \<and> (\<exists>t. buildBreadcrumbPath demo_env
             (demo_state\<lparr>breadcrumbs := [entry ''My Dashboard'' ''/home'']\<rparr>)
             ''Home'' ''http://h/home'' = Inr t
          \<and> length t \<le> 2
          \<and> no_adjacent_equal (location_origin demo_env) t
          \<and> last t = entry ''Home'' ''http://h/home'')"
proof -
  let ?st = "demo_state\<lparr>breadcrumbs := [entry ''My Dashboard'' ''/home'']\<rparr>"
  have w: "wf_trail (breadcrumbs ?st)"
    by (simp add: wf_trail_def is_entry_entry)
  have g: "getDashboardPage demo_env ?st = Inr (entry ''My Dashboard'' ''/home'')"
    by (simp add: eval_defs demo_defs)
  have v: "buildBreadcrumbPath demo_env ?st ''Home'' ''http://h/home''
       = Inr [entry ''Home'' ''http://h/home'']"
    by (simp add: eval_defs demo_defs)
  from build_trail_invariant [of ?st demo_env "''Home''" "''http://h/home''"] w
  have "\<exists>t. buildBreadcrumbPath demo_env ?st ''Home'' ''http://h/home'' = Inr t
          \<and> length t \<le> 2
          \<and> no_adjacent_equal (location_origin demo_env) t
          \<and> last t = entry ''Home'' ''http://h/home''"
    by blast
  with w g v show ?thesis by simp
qed


section \<open>Dashboard resolution order\<close>

lemmas page_defs =
  home_env_def admin_env_def initializePageHierarchy_def hierarchy_add_link_def

text \<open>
  C3 (as stated, refuted). The route catalog declares \<open>/admin_dashboard/\<close> under
  the label \<open>Home\<close>; the hierarchy built from it holds that address at level 0.
  The trail in memory is empty and there is no role indicator. Step (b) as the
  specification words it (the first hierarchy entry with level 0) yields that entry,
  but \<open>getDashboardPage\<close> passes it over, because its label does not contain
  \<open>dashboard\<close>, and ends at the fixed default.
\<close>

theorem getDashboardPage_skips_level0:
  "PAGE_HIERARCHY (initializePageHierarchy home_env demo_state)
     = [(''/admin_dashboard/'', \<lparr>label = ''Home'', level = 0, parent = None\<rparr>),
        (''/profile/'', \<lparr>label = ''Profile'', level = 1, parent = None\<rparr>)]
   \<and> resolveDashboard_spec home_env (initializePageHierarchy home_env demo_state)
       = Inr (entry ''Home'' ''/admin_dashboard/'')
   \<and> getDashboardPage home_env (initializePageHierarchy home_env demo_state)
       = Inr (entry ''Employee Dashboard'' ''/employee_dashboard/'')"
  by (simp add: eval_defs demo_defs page_defs resolveDashboard_spec_def)

text \<open>First match, in lists: the element found is the one that has no match
  before it.\<close>

lemma find_e_at:
  "(\<forall>y \<in> set ys. f y = Inr False) \<Longrightarrow> f d = Inr True \<Longrightarrow>
     find_e f (ys @ d # zs) = Inr (Some d)"
  by (induction ys) (simp_all add: bind_e_def)

lemma find_e_none: "(\<forall>x \<in> set xs. f x = Inr False) \<Longrightarrow> find_e f xs = Inr None"
  by (induction xs) (simp_all add: bind_e_def)

lemma find_at: "(\<forall>q \<in> set hs. \<not> P q) \<Longrightarrow> P p \<Longrightarrow> find P (hs @ p # rest) = Some p"
  by (induction hs) simp_all

lemma find_none: "(\<forall>q \<in> set xs. \<not> P q) \<Longrightarrow> find P xs = None"
  by (simp add: find_None_iff)

lemma dashboard_item_truthy: "is_dashboard_item env st d = Inr b \<Longrightarrow> js_truthy d"
  by (cases d)
    (simp_all add: is_dashboard_item_def isDashboardPage_def bind_e_def urlPatterns_def)

text \<open>
  C3 (amended). \<open>getDashboardPage\<close> resolves in this order, first match wins:
  (a) the first entry of the in-memory trail for which \<open>isDashboardPage\<close> is
  true; (b) the first hierarchy entry with level 0 whose label, in lower case,
  contains \<open>dashboard\<close>; (c) the first link of the page whose \<open>data-label\<close>
  contains the dashboard name of the role (\<open>Admin Dashboard\<close> for admin,
  \<open>Employee Dashboard\<close> otherwise), with its normalized address; (d) the fixed
  pair of the role, the employee one when the role indicator is absent or not
  admin. The role is admin when the text of the role indicator, trimmed and in
  lower case, is \<open>admin\<close>. On every state whose trail is well typed one of the
  four applies and the result is an entry with string label and address.
\<close>

theorem getDashboardPage_order:
  "(wf_trail (breadcrumbs st) \<longrightarrow> (\<exists>d. getDashboardPage env st = Inr d \<and> is_entry d))
   \<and> (\<forall>ys d zs.
         breadcrumbs st = ys @ d # zs
         \<and> (\<forall>y \<in> set ys. is_dashboard_item env st y = Inr False)
         \<and> is_dashboard_item env st d = Inr True \<longrightarrow>
         getDashboardPage env st = Inr d)
   \<and> ((\<forall>x \<in> set (breadcrumbs st). is_dashboard_item env st x = Inr False) \<longrightarrow>
        (\<forall>hs u info rest.
            PAGE_HIERARCHY st = hs @ (u, info) # rest
            \<and> (\<forall>q \<in> set hs. \<not> (level (snd q) = 0
                    \<and> str_includes (toLowerCase (label (snd q))) ''dashboard''))
            \<and> level info = 0 \<and> str_includes (toLowerCase (label info)) ''dashboard'' \<longrightarrow>
            getDashboardPage env st = Inr (entry (label info) u))
        \<and> ((\<forall>q \<in> set (PAGE_HIERARCHY st). \<not> (level (snd q) = 0
                    \<and> str_includes (toLowerCase (label (snd q))) ''dashboard'')) \<longrightarrow>
            (\<forall>bs a l rest.
                anchors env = bs @ a # rest
                \<and> (\<forall>b \<in> set bs. \<forall>m. data_label b = Some m \<longrightarrow>
                      \<not> str_includes m
                          (if isAdmin env then ''Admin Dashboard'' else ''Employee Dashboard''))
                \<and> data_label a = Some l
                \<and> str_includes l
                      (if isAdmin env then ''Admin Dashboard'' else ''Employee Dashboard'') \<longrightarrow>
                getDashboardPage env st
                  = Inr (entry l (normalizeUrl (location_origin env) (href a))))
            \<and> ((\<forall>b \<in> set (anchors env). \<forall>m. data_label b = Some m \<longrightarrow>
                      \<not> str_includes m
                          (if isAdmin env then ''Admin Dashboard'' else ''Employee Dashboard''))
                 \<longrightarrow>
                 getDashboardPage env st
                   = Inr (if isAdmin env then entry ''Admin Dashboard'' ''/admin_dashboard/''
                          else entry ''Employee Dashboard'' ''/employee_dashboard/''))))
   \<and> (isAdmin env \<longleftrightarrow>
        (\<exists>t. isAdmin_textContent env = Some t
             \<and> toLowerCase (String_trim env t) = ''admin''))"
proof (intro conjI impI allI)
  assume "wf_trail (breadcrumbs st)"
  then show "\<exists>d. getDashboardPage env st = Inr d \<and> is_entry d"
    by (rule getDashboardPage_wf)
next
  fix ys d zs
  assume a: "breadcrumbs st = ys @ d # zs
         \<and> (\<forall>y \<in> set ys. is_dashboard_item env st y = Inr False)
         \<and> is_dashboard_item env st d = Inr True"
  then have "find_e (is_dashboard_item env st) (breadcrumbs st) = Inr (Some d)"
    by (simp add: find_e_at)
  moreover from a have "js_truthy d"
    using dashboard_item_truthy by blast
  ultimately show "getDashboardPage env st = Inr d"
    by (rule getDashboardPage_trail)
next
  fix hs u info rest
  assume "\<forall>x \<in> set (breadcrumbs st). is_dashboard_item env st x = Inr False"
  then have n: "find_e (is_dashboard_item env st) (breadcrumbs st) = Inr None"
    by (rule find_e_none)
  assume "PAGE_HIERARCHY st = hs @ (u, info) # rest
            \<and> (\<forall>q \<in> set hs. \<not> (level (snd q) = 0
                    \<and> str_includes (toLowerCase (label (snd q))) ''dashboard''))
            \<and> level info = 0 \<and> str_includes (toLowerCase (label info)) ''dashboard''"
  then have "find is_dashboard_info (PAGE_HIERARCHY st) = Some (u, info)"
    by (simp add: find_at is_dashboard_info_def)
  with n have "getDashboardPage env st = Inr (entry (label (snd (u, info))) (fst (u, info)))"
    by (rule getDashboardPage_hierarchy)
  then show "getDashboardPage env st = Inr (entry (label info) u)"
    by simp
next
  fix bs a l rest
  assume "\<forall>x \<in> set (breadcrumbs st). is_dashboard_item env st x = Inr False"
  then have n: "find_e (is_dashboard_item env st) (breadcrumbs st) = Inr None"
    by (rule find_e_none)
  assume "\<forall>q \<in> set (PAGE_HIERARCHY st). \<not> (level (snd q) = 0
                    \<and> str_includes (toLowerCase (label (snd q))) ''dashboard'')"
  then have h: "find is_dashboard_info (PAGE_HIERARCHY st) = None"
    by (simp add: find_none is_dashboard_info_def)
  assume "anchors env = bs @ a # rest
                \<and> (\<forall>b \<in> set bs. \<forall>m. data_label b = Some m \<longrightarrow>
                      \<not> str_includes m
                          (if isAdmin env then ''Admin Dashboard'' else ''Employee Dashboard''))
                \<and> data_label a = Some l
                \<and> str_includes l
                      (if isAdmin env then ''Admin Dashboard'' else ''Employee Dashboard'')"
  then have "dashboardLink env = Some a" and "data_label a = Some l"
    unfolding dashboardLink_def
    by (auto intro!: find_at split: option.splits)
  with n h show "getDashboardPage env st
      = Inr (entry l (normalizeUrl (location_origin env) (href a)))"
    by (simp add: getDashboardPage_link)
next
  assume "\<forall>x \<in> set (breadcrumbs st). is_dashboard_item env st x = Inr False"
  then have n: "find_e (is_dashboard_item env st) (breadcrumbs st) = Inr None"
    by (rule find_e_none)
  assume "\<forall>q \<in> set (PAGE_HIERARCHY st). \<not> (level (snd q) = 0
                    \<and> str_includes (toLowerCase (label (snd q))) ''dashboard'')"
  then have h: "find is_dashboard_info (PAGE_HIERARCHY st) = None"
    by (simp add: find_none is_dashboard_info_def)
  assume "\<forall>b \<in> set (anchors env). \<forall>m. data_label b = Some m \<longrightarrow>
                      \<not> str_includes m
                          (if isAdmin env then ''Admin Dashboard'' else ''Employee Dashboard'')"
  then have "dashboardLink env = None"
    unfolding dashboardLink_def
    by (auto intro!: find_none split: option.splits)
  with n h have "getDashboardPage env st = Inr (fallbackDashboard env)"
    by (simp add: getDashboardPage_fallback)
  then show "getDashboardPage env st
      = Inr (if isAdmin env then entry ''Admin Dashboard'' ''/admin_dashboard/''
             else entry ''Employee Dashboard'' ''/employee_dashboard/'')"
    by (simp add: fallbackDashboard_def)
next
  show "isAdmin env \<longleftrightarrow>
        (\<exists>t. isAdmin_textContent env = Some t
             \<and> toLowerCase (String_trim env t) = ''admin'')"
    by (simp add: isAdmin_def split: option.splits)
qed

text \<open>The witness is the first scenario of the specification: the catalog
  declares \<open>Admin Dashboard\<close> at \<open>/admin_dashboard/\<close>, the role indicator reads
  \<open>Admin\<close> between blanks, the trail in memory is empty; step (b) answers.\<close>

theorem getDashboardPage_order_witness:
  "wf_trail (breadcrumbs (initializePageHierarchy admin_env demo_state))
   \<and> breadcrumbs (initializePageHierarchy admin_env demo_state) = []
   \<and> PAGE_HIERARCHY (initializePageHierarchy admin_env demo_state)
       = [(''/admin_dashboard/'', \<lparr>label = ''Admin Dashboard'', level = 0, parent = None\<rparr>),
          (''/employees/5/edit/'', \<lparr>label = ''Edit Employee'', level = 1, parent = None\<rparr>)]
   \<and> str_includes (toLowerCase ''Admin Dashboard'') ''dashboard''
   \<and> getDashboardPage admin_env (initializePageHierarchy admin_env demo_state)
       = Inr (entry ''Admin Dashboard'' ''/admin_dashboard/'')
   \<and> isAdmin_textContent admin_env = Some '' Admin ''
   \<and> toLowerCase (String_trim admin_env '' Admin '') = ''admin''
   \<and> isAdmin admin_env"
proof -
  let ?st = "initializePageHierarchy admin_env demo_state"
  let ?info = "\<lparr>label = ''Admin Dashboard'', level = 0, parent = None\<rparr>"
  let ?rest = "[(''/employees/5/edit/'', \<lparr>label = ''Edit Employee'', level = 1, parent = None\<rparr>)]"
  note order = getDashboardPage_order [where st = ?st and env = admin_env]
  have w: "wf_trail (breadcrumbs ?st)"
    by (simp add: wf_trail_def demo_defs page_defs Let_def)
  have e: "breadcrumbs ?st = []"
    by (simp add: demo_defs page_defs Let_def)
  have h: "PAGE_HIERARCHY ?st = (''/admin_dashboard/'', ?info) # ?rest"
    by (simp add: eval_defs demo_defs page_defs)
  have c: "str_includes (toLowerCase ''Admin Dashboard'') ''dashboard''"
    by (simp add: toLowerCase_def lower_char_def)
  have none: "\<forall>x \<in> set (breadcrumbs ?st). is_dashboard_item admin_env ?st x = Inr False"
    by (simp add: e)
  from order none
  have "\<forall>hs u info rest.
            PAGE_HIERARCHY ?st = hs @ (u, info) # rest
            \<and> (\<forall>q \<in> set hs. \<not> (level (snd q) = 0
                    \<and> str_includes (toLowerCase (label (snd q))) ''dashboard''))
            \<and> level info = 0 \<and> str_includes (toLowerCase (label info)) ''dashboard'' \<longrightarrow>
            getDashboardPage admin_env ?st = Inr (entry (label info) u)"
    by blast
  from this [rule_format, of "[]" "''/admin_dashboard/''" ?info ?rest] h c
  have g: "getDashboardPage admin_env ?st = Inr (entry ''Admin Dashboard'' ''/admin_dashboard/'')"
    by simp
  have t: "isAdmin_textContent admin_env = Some '' Admin ''"
    by (simp add: admin_env_def demo_env_def)
  have l: "toLowerCase (String_trim admin_env '' Admin '') = ''admin''"
    by (simp add: admin_env_def demo_env_def blank_trim_def toLowerCase_def lower_char_def)
  from order t l have i: "isAdmin admin_env"
    by blast
  from w e h c g t l i show ?thesis by simp
qed


section \<open>Persistence\<close>

lemma stored_item_ok_kept: "stored_item_ok x = Inr (kept_on_load x)"
  by (cases x) (auto simp: stored_item_ok_def kept_on_load_def bind_e_def split: option.splits)

lemma filter_stored_items: "filter_e stored_item_ok xs = Inr (filter kept_on_load xs)"
  by (rule filter_e_pure) (simp add: stored_item_ok_kept)

lemma load_unavailable:
  "\<not> available (localStorage st) \<Longrightarrow> loadBreadcrumbs env st = st\<lparr>breadcrumbs := []\<rparr>"
  by (simp add: loadBreadcrumbs_def loadBreadcrumbs_try_def getItem_def bind_e_def)

lemma load_absent:
  assumes "available (localStorage st)"
    and "app_breadcrumbs (localStorage st) = None \<or> app_breadcrumbs (localStorage st) = Some []"
  shows "loadBreadcrumbs env st = st"
  using assms
  by (auto simp: loadBreadcrumbs_def loadBreadcrumbs_try_def getItem_def bind_e_def)

lemma load_malformed:
  assumes "available (localStorage st)" and "app_breadcrumbs (localStorage st) = Some s"
    and "s \<noteq> []" and "JSON_parse env s = None"
  shows "loadBreadcrumbs env st = st\<lparr>breadcrumbs := []\<rparr>"
  using assms
  by (simp add: loadBreadcrumbs_def loadBreadcrumbs_try_def getItem_def bind_e_def)

lemma load_not_array:
  assumes "available (localStorage st)" and "app_breadcrumbs (localStorage st) = Some s"
    and "s \<noteq> []" and "JSON_parse env s = Some v" and "\<forall>xs. v \<noteq> JArr xs"
  shows "loadBreadcrumbs env st = st\<lparr>breadcrumbs := []\<rparr>"
  using assms
  by (cases v) (simp_all add: loadBreadcrumbs_def loadBreadcrumbs_try_def getItem_def bind_e_def)

lemma load_array:
  assumes "available (localStorage st)" and "app_breadcrumbs (localStorage st) = Some s"
    and "s \<noteq> []" and "JSON_parse env s = Some (JArr xs)"
  shows "loadBreadcrumbs env st = st\<lparr>breadcrumbs := filter kept_on_load xs\<rparr>"
  using assms
  by (simp add: loadBreadcrumbs_def loadBreadcrumbs_try_def getItem_def bind_e_def
      filter_stored_items)

lemma load_caught:
  "loadBreadcrumbs_try env st = Inl e \<Longrightarrow> loadBreadcrumbs env st = st\<lparr>breadcrumbs := []\<rparr>"
  by (simp add: loadBreadcrumbs_def)

lemma load_keeps_hierarchy: "PAGE_HIERARCHY (loadBreadcrumbs env st) = PAGE_HIERARCHY st"
  by (auto simp: loadBreadcrumbs_def loadBreadcrumbs_try_def bind_e_def
      split: sum.splits option.splits jsval.splits if_splits)

lemma initialize_keeps_storage:
  "localStorage (initializePageHierarchy env st) = localStorage st"
  by (simp add: initializePageHierarchy_def Let_def)

lemma valid_entry_kept: "valid_entry x \<Longrightarrow> kept_on_load x"
  by (cases x)
    (auto simp: valid_entry_def kept_on_load_def str_prop_def split: option.splits jsval.splits)

lemma valid_entry_entry: "valid_entry (entry l u) \<longleftrightarrow> l \<noteq> [] \<and> u \<noteq> []"
  by (simp add: valid_entry_def str_prop_def entry_def)

lemma kept_has_both:
  assumes "kept_on_load x"
  shows "\<exists>kvs l u. x = JObj kvs \<and> map_of kvs ''label'' = Some l \<and> map_of kvs ''url'' = Some u
           \<and> l \<noteq> JStr [] \<and> l \<noteq> JNull \<and> u \<noteq> JStr [] \<and> u \<noteq> JNull"
  using assms
  by (cases x) (auto simp: kept_on_load_def split: option.splits)

lemma load_initial_soft:
  assumes "\<not> (\<exists>s xs. available sto \<and> app_breadcrumbs sto = Some s \<and> s \<noteq> []
              \<and> JSON_parse env s = Some (JArr xs))"
  shows "breadcrumbs (loadBreadcrumbs env (initial_state sto)) = []"
proof (cases "available sto")
  case False
  then show ?thesis
    by (simp add: load_unavailable initial_state_def)
next
  case True
  note av = this
  show ?thesis
  proof (cases "app_breadcrumbs sto")
    case None
    with av show ?thesis
      by (simp add: load_absent initial_state_def)
  next
    case (Some s)
    note slot = this
    show ?thesis
    proof (cases "s = []")
      case True
      with av slot show ?thesis
        by (simp add: load_absent initial_state_def)
    next
      case False
      note ne = this
      show ?thesis
      proof (cases "JSON_parse env s")
        case None
        with av slot ne
        have "loadBreadcrumbs env (initial_state sto) = (initial_state sto)\<lparr>breadcrumbs := []\<rparr>"
          by (intro load_malformed [where s = s]) (simp_all add: initial_state_def)
        then show ?thesis by simp
      next
        case (Some v)
        with assms av slot ne have "\<forall>xs. v \<noteq> JArr xs"
          by auto
        with av slot ne Some
        have "loadBreadcrumbs env (initial_state sto) = (initial_state sto)\<lparr>breadcrumbs := []\<rparr>"
          by (intro load_not_array [where s = s and v = v]) (simp_all add: initial_state_def)
        then show ?thesis by simp
      qed
    qed
  qed
qed

lemmas store_defs =
  loadBreadcrumbs_def loadBreadcrumbs_try_def saveBreadcrumbs_def getItem_def setItem_def
  stored_item_ok_def demo_parse_def demo_stringify_def text_A_def text_DA_def
  updateBreadcrumb_def renderBreadcrumbs_def li_innerHTML_def

text \<open>
  C4 (as stated, refuted). After \<open>update("A", "/a")\<close> the trail in memory holds
  two entries; another script then empties the storage (the slot is absent).
  \<open>load()\<close> does not yield an empty trail: the guard \<open>if (stored)\<close> skips the
  assignment and the trail in memory stays as it was.
\<close>

theorem load_absent_keeps_trail:
  "app_breadcrumbs
       (localStorage ((fst (updateBreadcrumb demo_env demo_state ''A'' ''/a''))
                        \<lparr>localStorage := demo_storage\<rparr>)) = None
   \<and> breadcrumbs
       (loadBreadcrumbs demo_env
          ((fst (updateBreadcrumb demo_env demo_state ''A'' ''/a''))
             \<lparr>localStorage := demo_storage\<rparr>))
       = [entry ''Employee Dashboard'' ''/employee_dashboard/'', entry ''A'' ''/a'']
   \<and> breadcrumbs
       (loadBreadcrumbs demo_env
          ((fst (updateBreadcrumb demo_env demo_state ''A'' ''/a''))
             \<lparr>localStorage := demo_storage\<rparr>)) \<noteq> []"
proof -
  have b: "buildBreadcrumbPath demo_env demo_state ''A'' ''/a''
       = Inr [entry ''Employee Dashboard'' ''/employee_dashboard/'', entry ''A'' ''/a'']"
    by (simp add: eval_defs demo_defs)
  have "breadcrumbs (fst (updateBreadcrumb demo_env demo_state ''A'' ''/a''))
       = [entry ''Employee Dashboard'' ''/employee_dashboard/'', entry ''A'' ''/a'']"
    by (simp add: updateBreadcrumb_def b renderBreadcrumbs_def saveBreadcrumbs_def
        split: sum.splits prod.splits)
  then show ?thesis
    by (simp add: loadBreadcrumbs_def loadBreadcrumbs_try_def getItem_def bind_e_def
        demo_storage_def)
qed

text \<open>
  C4 (amended). \<open>loadBreadcrumbs\<close> never raises: every exception of its body is
  caught and leaves an empty trail. A storage that cannot be read, a text that
  does not parse and a parsed value that is not a list all yield an empty
  trail. An absent (or empty) slot leaves the trail in memory as it was; on
  page load, where the trail starts empty, every store that does not hold a
  list therefore yields the empty trail. When the text parses to a list, the
  trail becomes the elements that are objects with truthy \<open>label\<close> and \<open>url\<close>,
  in order: an element that has no label or no address, or an empty or null
  one, is dropped, and every entry with non-empty label and address is kept.
  Nothing but the trail changes.
\<close>

theorem load_fails_soft:
  "(\<forall>e. loadBreadcrumbs_try env st = Inl e \<longrightarrow> loadBreadcrumbs env st = st\<lparr>breadcrumbs := []\<rparr>)
   \<and> (\<not> available (localStorage st) \<longrightarrow> loadBreadcrumbs env st = st\<lparr>breadcrumbs := []\<rparr>)
   \<and> (available (localStorage st) \<longrightarrow>
        (app_breadcrumbs (localStorage st) = None \<or> app_breadcrumbs (localStorage st) = Some []
           \<longrightarrow> loadBreadcrumbs env st = st)
        \<and> (\<forall>s. app_breadcrumbs (localStorage st) = Some s \<and> s \<noteq> [] \<longrightarrow>
              (JSON_parse env s = None \<longrightarrow> loadBreadcrumbs env st = st\<lparr>breadcrumbs := []\<rparr>)
              \<and> (\<forall>v. JSON_parse env s = Some v \<and> (\<forall>xs. v \<noteq> JArr xs) \<longrightarrow>
                    loadBreadcrumbs env st = st\<lparr>breadcrumbs := []\<rparr>)
              \<and> (\<forall>xs. JSON_parse env s = Some (JArr xs) \<longrightarrow>
                    loadBreadcrumbs env st = st\<lparr>breadcrumbs := filter kept_on_load xs\<rparr>)))
   \<and> (\<not> (\<exists>s xs. available sto \<and> app_breadcrumbs sto = Some s \<and> s \<noteq> []
              \<and> JSON_parse env s = Some (JArr xs)) \<longrightarrow>
        breadcrumbs (loadBreadcrumbs env (initial_state sto)) = [])
   \<and> (\<forall>x. valid_entry x \<longrightarrow> kept_on_load x)
   \<and> (\<forall>x. kept_on_load x \<longrightarrow>
          (\<exists>kvs l u. x = JObj kvs \<and> map_of kvs ''label'' = Some l \<and> map_of kvs ''url'' = Some u
             \<and> l \<noteq> JStr [] \<and> l \<noteq> JNull \<and> u \<noteq> JStr [] \<and> u \<noteq> JNull))"
proof (intro conjI impI allI)
  fix e assume "loadBreadcrumbs_try env st = Inl e"
  then show "loadBreadcrumbs env st = st\<lparr>breadcrumbs := []\<rparr>" by (rule load_caught)
next
  assume "\<not> available (localStorage st)"
  then show "loadBreadcrumbs env st = st\<lparr>breadcrumbs := []\<rparr>" by (rule load_unavailable)
next
  assume "available (localStorage st)"
    and "app_breadcrumbs (localStorage st) = None \<or> app_breadcrumbs (localStorage st) = Some []"
  then show "loadBreadcrumbs env st = st" by (rule load_absent)
next
  fix s
  assume "available (localStorage st)"
    and "app_breadcrumbs (localStorage st) = Some s \<and> s \<noteq> []"
    and "JSON_parse env s = None"
  then show "loadBreadcrumbs env st = st\<lparr>breadcrumbs := []\<rparr>"
    by (simp add: load_malformed)
next
  fix s v
  assume "available (localStorage st)"
    and "app_breadcrumbs (localStorage st) = Some s \<and> s \<noteq> []"
    and "JSON_parse env s = Some v \<and> (\<forall>xs. v \<noteq> JArr xs)"
  then show "loadBreadcrumbs env st = st\<lparr>breadcrumbs := []\<rparr>"
    using load_not_array by blast
next
  fix s xs
  assume "available (localStorage st)"
    and "app_breadcrumbs (localStorage st) = Some s \<and> s \<noteq> []"
    and "JSON_parse env s = Some (JArr xs)"
  then show "loadBreadcrumbs env st = st\<lparr>breadcrumbs := filter kept_on_load xs\<rparr>"
    by (simp add: load_array)
next
  assume "\<not> (\<exists>s xs. available sto \<and> app_breadcrumbs sto = Some s \<and> s \<noteq> []
              \<and> JSON_parse env s = Some (JArr xs))"
  then show "breadcrumbs (loadBreadcrumbs env (initial_state sto)) = []"
    by (rule load_initial_soft)
next
  fix x assume "valid_entry x"
  then show "kept_on_load x" by (rule valid_entry_kept)
next
  fix x assume "kept_on_load x"
  then show "\<exists>kvs l u. x = JObj kvs \<and> map_of kvs ''label'' = Some l \<and> map_of kvs ''url'' = Some u
             \<and> l \<noteq> JStr [] \<and> l \<noteq> JNull \<and> u \<noteq> JStr [] \<and> u \<noteq> JNull"
    by (rule kept_has_both)
qed

text \<open>The witness is the example of the specification, a store holding
  \<open>[{"label":"A"}]\<close>, and a list that mixes a valid entry with an entry whose
  label is empty, \<open>null\<close> and a number.\<close>

theorem load_fails_soft_witness:
  \<open>available (localStorage (initial_state (demo_storage\<lparr>app_breadcrumbs := Some ''[{"label":"A"}]''\<rparr>)))
   \<and> JSON_parse demo_env ''[{"label":"A"}]'' = Some (JArr [JObj [(''label'', JStr ''A'')]])
   \<and> breadcrumbs (loadBreadcrumbs demo_env
        (initial_state (demo_storage\<lparr>app_breadcrumbs := Some ''[{"label":"A"}]''\<rparr>))) = []
   \<and> breadcrumbs (loadBreadcrumbs demo_env
        (initial_state (demo_storage\<lparr>app_breadcrumbs :=
           Some ''[{"label":"A","url":"/a"},{"label":"","url":"/b"},null,7]''\<rparr>)))
       = [entry ''A'' ''/a'']
   \<and> breadcrumbs (loadBreadcrumbs demo_env
        (initial_state (demo_storage\<lparr>app_breadcrumbs := Some ''{oops''\<rparr>))) = []
   \<and> breadcrumbs (loadBreadcrumbs demo_env
        (initial_state (demo_storage\<lparr>app_breadcrumbs := Some ''{"label":"A","url":"/a"}''\<rparr>))) = []\<close>
proof -
  let ?s1 = \<open>initial_state (demo_storage\<lparr>app_breadcrumbs := Some ''[{"label":"A"}]''\<rparr>)\<close>
  let ?s2 = \<open>initial_state (demo_storage\<lparr>app_breadcrumbs :=
           Some ''[{"label":"A","url":"/a"},{"label":"","url":"/b"},null,7]''\<rparr>)\<close>
  let ?s3 = \<open>initial_state (demo_storage\<lparr>app_breadcrumbs := Some ''{oops''\<rparr>)\<close>
  let ?s4 = \<open>initial_state (demo_storage\<lparr>app_breadcrumbs := Some ''{"label":"A","url":"/a"}''\<rparr>)\<close>
  have a: "available (localStorage ?s1)"
    by (simp add: initial_state_def demo_storage_def)
  have p1: \<open>JSON_parse demo_env ''[{"label":"A"}]'' = Some (JArr [JObj [(''label'', JStr ''A'')]])\<close>
    by (simp add: demo_env_def demo_parse_def text_A_def text_DA_def)
  from load_fails_soft [of demo_env ?s1] p1
  have r1: "breadcrumbs (loadBreadcrumbs demo_env ?s1) = []"
    by (simp add: initial_state_def demo_storage_def kept_on_load_def)
  have p2: \<open>JSON_parse demo_env ''[{"label":"A","url":"/a"},{"label":"","url":"/b"},null,7]''
      = Some (JArr [entry ''A'' ''/a'', entry '''' ''/b'', JNull, JNum 7])\<close>
    by (simp add: demo_env_def demo_parse_def text_A_def text_DA_def)
  from load_fails_soft [of demo_env ?s2] p2
  have r2: "breadcrumbs (loadBreadcrumbs demo_env ?s2) = [entry ''A'' ''/a'']"
    by (simp add: initial_state_def demo_storage_def kept_on_load_def entry_def)
  have p3: \<open>JSON_parse demo_env ''{oops'' = None\<close>
    by (simp add: demo_env_def demo_parse_def text_A_def text_DA_def)
  from load_fails_soft [of demo_env ?s3] p3
  have r3: "breadcrumbs (loadBreadcrumbs demo_env ?s3) = []"
    by (simp add: initial_state_def demo_storage_def)
  have p4: \<open>JSON_parse demo_env ''{"label":"A","url":"/a"}'' = Some (entry ''A'' ''/a'')\<close>
    by (simp add: demo_env_def demo_parse_def text_A_def text_DA_def)
  from load_fails_soft [of demo_env ?s4] p4
  have r4: "breadcrumbs (loadBreadcrumbs demo_env ?s4) = []"
    by (simp add: initial_state_def demo_storage_def entry_def)
  from a p1 r1 r2 r3 r4 show ?thesis by simp
qed

text \<open>
  The validation tests truthiness, not type: a stored element whose \<open>label\<close>
  and \<open>url\<close> are numbers passes it. With such an element in the trail the
  search of \<open>getDashboardPage\<close> calls \<open>includes\<close> on a number, and the page
  load that follows ends in a \<open>TypeError\<close>. The statements about the resolver
  and the builder therefore speak of well-typed trails where they say that a
  result is returned.
\<close>

lemma load_admits_untyped_entry:
  \<open>breadcrumbs (loadBreadcrumbs demo_env
       (initial_state (demo_storage\<lparr>app_breadcrumbs := Some ''[{"label":1,"url":2}]''\<rparr>)))
     = [JObj [(''label'', JNum 1), (''url'', JNum 2)]]
   \<and> getDashboardPage demo_env
       (loadBreadcrumbs demo_env
          (initial_state (demo_storage\<lparr>app_breadcrumbs := Some ''[{"label":1,"url":2}]''\<rparr>)))
     = Inl TypeError
   \<and> snd (onDOMContentLoaded demo_env
            (initial_state (demo_storage\<lparr>app_breadcrumbs := Some ''[{"label":1,"url":2}]''\<rparr>)))
     = Some TypeError\<close>
proof -
  let ?text = \<open>''[{"label":1,"url":2}]''\<close>
  let ?st = \<open>initial_state (demo_storage\<lparr>app_breadcrumbs := Some ?text\<rparr>)\<close>
  let ?x = "JObj [(''label'', JNum 1), (''url'', JNum 2)]"
  have p: "JSON_parse demo_env ?text = Some (JArr [?x])"
    by (simp add: demo_env_def demo_parse_def text_A_def text_DA_def)
  have k: "filter kept_on_load [?x] = [?x]"
    by (simp add: kept_on_load_def)
  have "loadBreadcrumbs demo_env ?st = ?st\<lparr>breadcrumbs := filter kept_on_load [?x]\<rparr>"
    by (rule load_array [where s = ?text]) (simp_all add: p initial_state_def demo_storage_def)
  then have l: "loadBreadcrumbs demo_env ?st = ?st\<lparr>breadcrumbs := [?x]\<rparr>"
    by (simp only: k)
  have f: "is_dashboard_item env st ?x = Inl TypeError" for env st
    by (simp add: is_dashboard_item_def isDashboardPage_def bind_e_def urlPatterns_def)
  have g: "getDashboardPage demo_env (loadBreadcrumbs demo_env ?st) = Inl TypeError"
    by (simp add: l getDashboardPage_def f bind_e_def)
  let ?st1 = "initializePageHierarchy demo_env ?st"
  have "loadBreadcrumbs demo_env ?st1 = ?st1\<lparr>breadcrumbs := filter kept_on_load [?x]\<rparr>"
    by (rule load_array [where s = ?text])
      (simp_all add: p initialize_keeps_storage initial_state_def demo_storage_def)
  then have l1: "breadcrumbs (loadBreadcrumbs demo_env ?st1) = [?x]"
    by (simp add: kept_on_load_def)
  have d: "isDashboardPage demo_env st (JStr (pageUrl demo_env)) (JStr (pageLabel demo_env))
      = Inr (case map_of (PAGE_HIERARCHY st) ''/employees/5/edit/'' of
               None \<Rightarrow> False | Some info \<Rightarrow> level info = 0)" for st
    by (simp add: isDashboardPage_strings pageUrl_def pageLabel_def or_else_def demo_env_def
        normalizeUrl_def urlPatterns_def toLowerCase_def lower_char_def)
  have h: "PAGE_HIERARCHY (loadBreadcrumbs demo_env ?st1)
      = [(''/employees/5/edit/'', \<lparr>label = ''Edit Employee'', level = 1, parent = None\<rparr>)]"
    by (simp add: load_keeps_hierarchy eval_defs demo_defs page_defs)
  have "buildBreadcrumbPath demo_env (loadBreadcrumbs demo_env ?st1)
      (pageLabel demo_env) (pageUrl demo_env) = Inl TypeError"
    by (simp add: buildBreadcrumbPath_def d h getDashboardPage_def l1 f bind_e_def)
  then have "snd (onDOMContentLoaded demo_env ?st) = Some TypeError"
    by (simp add: onDOMContentLoaded_def updateBreadcrumb_def)
  with l g show ?thesis by simp
qed

text \<open>
  C10 (as stated, refuted). The store holds \<open>[{"label":1,"url":2}]\<close>. After
  \<open>loadBreadcrumbs\<close> the trail in memory is that one element, and
  \<open>buildBreadcrumbPath\<close> for the page \<open>/employees/5/edit/\<close> returns no trail: the
  page is not a dashboard, \<open>getDashboardPage\<close> searches the trail and
  \<open>isDashboardPage(2, 1)\<close> raises \<open>TypeError\<close>.
\<close>

theorem build_raises_on_untyped_trail:
  \<open>breadcrumbs (loadBreadcrumbs demo_env
       (initial_state (demo_storage\<lparr>app_breadcrumbs := Some ''[{"label":1,"url":2}]''\<rparr>)))
     = [JObj [(''label'', JNum 1), (''url'', JNum 2)]]
   \<and> isDashboardPage demo_env
       (loadBreadcrumbs demo_env
          (initial_state (demo_storage\<lparr>app_breadcrumbs := Some ''[{"label":1,"url":2}]''\<rparr>)))
       (JNum 2) (JNum 1) = Inl TypeError
   \<and> buildBreadcrumbPath demo_env
       (loadBreadcrumbs demo_env
          (initial_state (demo_storage\<lparr>app_breadcrumbs := Some ''[{"label":1,"url":2}]''\<rparr>)))
       ''Edit Employee'' ''/employees/5/edit/'' = Inl TypeError\<close>
proof -
  let ?text = \<open>''[{"label":1,"url":2}]''\<close>
  let ?st = \<open>initial_state (demo_storage\<lparr>app_breadcrumbs := Some ?text\<rparr>)\<close>
  let ?x = "JObj [(''label'', JNum 1), (''url'', JNum 2)]"
  have p: "JSON_parse demo_env ?text = Some (JArr [?x])"
    by (simp add: demo_env_def demo_parse_def text_A_def text_DA_def)
  have "loadBreadcrumbs demo_env ?st = ?st\<lparr>breadcrumbs := filter kept_on_load [?x]\<rparr>"
    by (rule load_array [where s = ?text]) (simp_all add: p initial_state_def demo_storage_def)
  then have l: "loadBreadcrumbs demo_env ?st = ?st\<lparr>breadcrumbs := [?x]\<rparr>"
    by (simp add: kept_on_load_def)
  have d: "isDashboardPage env st (JNum 2) (JNum 1) = Inl TypeError" for env st
    by (simp add: isDashboardPage_def bind_e_def urlPatterns_def)
  have f: "is_dashboard_item env st ?x = Inl TypeError" for env st
    by (simp add: is_dashboard_item_def d bind_e_def)
  have c: "isDashboardPage demo_env (?st\<lparr>breadcrumbs := [?x]\<rparr>)
      (JStr ''/employees/5/edit/'') (JStr ''Edit Employee'') = Inr False"
    by (simp add: isDashboardPage_strings urlPatterns_def toLowerCase_def lower_char_def
        initial_state_def)
  have b: "buildBreadcrumbPath demo_env (?st\<lparr>breadcrumbs := [?x]\<rparr>)
      ''Edit Employee'' ''/employees/5/edit/'' = Inl TypeError"
    by (simp add: buildBreadcrumbPath_def c getDashboardPage_def f bind_e_def)
  from l d b show ?thesis by simp
qed

lemma filter_kept_valid: "list_all valid_entry t \<Longrightarrow> filter kept_on_load t = t"
  by (induction t) (auto simp: valid_entry_kept)

lemma save_accepted:
  assumes "available (localStorage st)"
    and "accepts (localStorage st) (JSON_stringify env (JArr (breadcrumbs st)))"
  shows "saveBreadcrumbs env st
     = st\<lparr>localStorage := (localStorage st)
            \<lparr>app_breadcrumbs := Some (JSON_stringify env (JArr (breadcrumbs st)))\<rparr>\<rparr>"
  using assms by (simp add: saveBreadcrumbs_def setItem_def)

lemma save_refused:
  assumes "\<not> available (localStorage st)
     \<or> \<not> accepts (localStorage st) (JSON_stringify env (JArr (breadcrumbs st)))"
  shows "saveBreadcrumbs env st = st"
  using assms by (auto simp: saveBreadcrumbs_def setItem_def)

text \<open>
  C5 (as stated, refuted). The storage holds \<open>[]\<close> from an earlier page and its
  quota is used up, so \<open>setItem\<close> throws; \<open>saveBreadcrumbs\<close> swallows the
  exception and the slot keeps the old text. Saving the well-formed trail
  \<open>[{A, /a}]\<close> and loading gives the empty trail.
\<close>

theorem save_load_quota_exceeded:
  "list_all valid_entry [entry ''A'' ''/a'']
   \<and> breadcrumbs
       (loadBreadcrumbs demo_env
          (saveBreadcrumbs demo_env
             ((initial_state
                 \<lparr>app_breadcrumbs = Some ''[]'', available = True, accepts = (\<lambda>v. False)\<rparr>)
               \<lparr>breadcrumbs := [entry ''A'' ''/a'']\<rparr>))) = []
   \<and> breadcrumbs
       (loadBreadcrumbs demo_env
          (saveBreadcrumbs demo_env
             ((initial_state
                 \<lparr>app_breadcrumbs = Some ''[]'', available = True, accepts = (\<lambda>v. False)\<rparr>)
               \<lparr>breadcrumbs := [entry ''A'' ''/a'']\<rparr>))) \<noteq> [entry ''A'' ''/a'']"
proof -
  have "valid_entry (entry ''A'' ''/a'')"
    by (simp add: valid_entry_entry)
  then show ?thesis
    by (simp add: store_defs bind_e_def initial_state_def demo_env_def)
qed

text \<open>
  C5 (amended). For every trail \<open>t\<close> of valid entries (objects whose label and
  address are non-empty strings; any number of them, so also 0 to 2), if the storage can be
  read and accepts the write, then saving \<open>t\<close> and loading yields \<open>t\<close>, in the
  same page view and in a later one that starts from the empty trail. The
  platform's \<open>JSON.parse\<close> is assumed to invert \<open>JSON.stringify\<close> on \<open>t\<close>, whose
  text is not empty.
\<close>

theorem save_load_roundtrip:
  assumes "list_all valid_entry t"
    and "JSON_parse env (JSON_stringify env (JArr t)) = Some (JArr t)"
    and "JSON_stringify env (JArr t) \<noteq> []"
    and "available (localStorage st)"
    and "accepts (localStorage st) (JSON_stringify env (JArr t))"
  shows "breadcrumbs (loadBreadcrumbs env (saveBreadcrumbs env (st\<lparr>breadcrumbs := t\<rparr>))) = t
     \<and> breadcrumbs
         (loadBreadcrumbs env
            (initial_state (localStorage (saveBreadcrumbs env (st\<lparr>breadcrumbs := t\<rparr>))))) = t"
proof -
  let ?saved = "saveBreadcrumbs env (st\<lparr>breadcrumbs := t\<rparr>)"
  let ?text = "JSON_stringify env (JArr t)"
  have s: "?saved = st\<lparr>breadcrumbs := t,
                        localStorage := (localStorage st)\<lparr>app_breadcrumbs := Some ?text\<rparr>\<rparr>"
    using assms(4,5) by (simp add: save_accepted)
  have "loadBreadcrumbs env ?saved = ?saved\<lparr>breadcrumbs := filter kept_on_load t\<rparr>"
    by (rule load_array [where s = ?text]) (simp_all add: s assms)
  then have one: "breadcrumbs (loadBreadcrumbs env ?saved) = t"
    using assms(1) by (simp add: filter_kept_valid)
  let ?later = "initial_state (localStorage ?saved)"
  have "loadBreadcrumbs env ?later = ?later\<lparr>breadcrumbs := filter kept_on_load t\<rparr>"
    by (rule load_array [where s = ?text]) (simp_all add: s assms initial_state_def)
  then have two: "breadcrumbs (loadBreadcrumbs env ?later) = t"
    using assms(1) by (simp add: filter_kept_valid)
  from one two show ?thesis by simp
qed

theorem save_load_roundtrip_witness:
  "list_all valid_entry [entry ''Admin Dashboard'' ''/admin_dashboard/'', entry ''A'' ''/a'']
   \<and> JSON_stringify demo_env
         (JArr [entry ''Admin Dashboard'' ''/admin_dashboard/'', entry ''A'' ''/a'']) = text_DA
   \<and> JSON_parse demo_env text_DA
       = Some (JArr [entry ''Admin Dashboard'' ''/admin_dashboard/'', entry ''A'' ''/a''])
   \<and> text_DA \<noteq> []
   \<and> available (localStorage demo_state)
   \<and> accepts (localStorage demo_state) text_DA
   \<and> breadcrumbs
       (loadBreadcrumbs demo_env
          (saveBreadcrumbs demo_env
             (demo_state\<lparr>breadcrumbs :=
                [entry ''Admin Dashboard'' ''/admin_dashboard/'', entry ''A'' ''/a'']\<rparr>)))
       = [entry ''Admin Dashboard'' ''/admin_dashboard/'', entry ''A'' ''/a'']
   \<and> breadcrumbs
       (loadBreadcrumbs demo_env
          (initial_state
             (localStorage
                (saveBreadcrumbs demo_env
                   (demo_state\<lparr>breadcrumbs :=
                      [entry ''Admin Dashboard'' ''/admin_dashboard/'', entry ''A'' ''/a'']\<rparr>)))))
       = [entry ''Admin Dashboard'' ''/admin_dashboard/'', entry ''A'' ''/a'']"
proof -
  let ?t = "[entry ''Admin Dashboard'' ''/admin_dashboard/'', entry ''A'' ''/a'']"
  have v: "list_all valid_entry ?t"
    by (simp add: valid_entry_entry)
  have s: "JSON_stringify demo_env (JArr ?t) = text_DA"
    by (simp add: demo_env_def demo_stringify_def entry_def)
  have p: "JSON_parse demo_env text_DA = Some (JArr ?t)"
    by (simp add: demo_env_def demo_parse_def text_DA_def text_A_def)
  have n: "text_DA \<noteq> []"
    by (simp add: text_DA_def)
  have a: "available (localStorage demo_state)"
    by (simp add: demo_defs)
  have c: "accepts (localStorage demo_state) text_DA"
    by (simp add: demo_defs)
  from save_load_roundtrip [of ?t demo_env demo_state] v s p n a c
  have "breadcrumbs (loadBreadcrumbs demo_env (saveBreadcrumbs demo_env
            (demo_state\<lparr>breadcrumbs := ?t\<rparr>))) = ?t
     \<and> breadcrumbs (loadBreadcrumbs demo_env (initial_state (localStorage
            (saveBreadcrumbs demo_env (demo_state\<lparr>breadcrumbs := ?t\<rparr>))))) = ?t"
    by simp
  with v s p n a c show ?thesis by simp
qed


section \<open>Normalized addresses in the trail\<close>

lemma url_normalized_entry: "url_normalized (entry l u) = is_normalized u"
  by (simp add: url_normalized_def str_prop_def entry_def)

lemma url_normalized_fallback: "url_normalized (fallbackDashboard env)"
  by (simp add: fallbackDashboard_def Let_def url_normalized_entry is_normalized_def)

lemma find_Some_mem: "find P xs = Some x \<Longrightarrow> x \<in> set xs"
  by (auto simp: find_Some_iff)

lemma getDashboardPage_normalized:
  assumes g: "getDashboardPage env st = Inr d"
    and t: "urls_normalized (breadcrumbs st)"
    and h: "list_all is_normalized (map fst (PAGE_HIERARCHY st))"
  shows "url_normalized d"
proof -
  from g obtain r where r: "find_e (is_dashboard_item env st) (breadcrumbs st) = Inr r"
    by (auto simp: getDashboardPage_def bind_e_def split: sum.splits)
  show ?thesis
  proof (cases "\<exists>x. r = Some x \<and> js_truthy x")
    case True
    then obtain x where x: "r = Some x" and "js_truthy x" by blast
    with g r have "d = x"
      by (simp add: getDashboardPage_def bind_e_def)
    moreover from r [unfolded x] have "x \<in> set (breadcrumbs st)"
      by (rule find_e_Some_mem)
    ultimately show ?thesis
      using t by (simp add: urls_normalized_def list_all_iff)
  next
    case False
    then have none: "(case r of None \<Rightarrow> None | Some d \<Rightarrow> if js_truthy d then Some d else None) = None"
      by (cases r) auto
    show ?thesis
    proof (cases "find is_dashboard_info (PAGE_HIERARCHY st)")
      case (Some p)
      with g r none have "d = entry (label (snd p)) (fst p)"
        by (simp add: getDashboardPage_def bind_e_def)
      moreover from Some have "p \<in> set (PAGE_HIERARCHY st)"
        by (rule find_Some_mem)
      ultimately show ?thesis
        using h by (simp add: url_normalized_entry list_all_iff)
    next
      case None
      note hn = this
      show ?thesis
      proof (cases "dashboardLink env")
        case None
        with g r none hn have "d = fallbackDashboard env"
          by (simp add: getDashboardPage_def bind_e_def)
        then show ?thesis by (simp add: url_normalized_fallback)
      next
        case (Some a)
        with g r none hn
        have "str_prop d ''url'' = Some (normalizeUrl (location_origin env) (href a))"
          by (auto simp: getDashboardPage_def bind_e_def str_prop_def)
        then show ?thesis
          by (simp add: url_normalized_def normalizeUrl_is_normalized)
      qed
    qed
  qed
qed

lemma build_normalized:
  assumes "buildBreadcrumbPath env st lbl url = Inr t"
    and "is_normalized url"
    and "urls_normalized (breadcrumbs st)"
    and "list_all is_normalized (map fst (PAGE_HIERARCHY st))"
  shows "urls_normalized t"
  using build_shape [OF assms(1)] assms(2-4)
  by (auto simp: urls_normalized_def url_normalized_entry getDashboardPage_normalized)

lemma render_keeps_trail: "breadcrumbs (fst (renderBreadcrumbs env st)) = breadcrumbs st"
  by (simp add: renderBreadcrumbs_def split: prod.splits)

lemma render_keeps_hierarchy: "PAGE_HIERARCHY (fst (renderBreadcrumbs env st)) = PAGE_HIERARCHY st"
  by (simp add: renderBreadcrumbs_def split: prod.splits)

lemma save_keeps_trail: "breadcrumbs (saveBreadcrumbs env st) = breadcrumbs st"
  by (simp add: saveBreadcrumbs_def split: sum.splits)

lemma update_trail:
  "breadcrumbs (fst (updateBreadcrumb env st lbl url))
     = (case buildBreadcrumbPath env st lbl url of Inl e \<Rightarrow> breadcrumbs st | Inr t \<Rightarrow> t)"
  by (simp add: updateBreadcrumb_def render_keeps_trail save_keeps_trail split: sum.splits)

lemma update_keeps_wf:
  assumes "wf_trail (breadcrumbs st)"
  shows "wf_trail (breadcrumbs (fst (updateBreadcrumb env st lbl url)))"
  using assms by (auto simp: update_trail build_wf split: sum.splits)

lemma update_normalized:
  assumes "is_normalized url"
    and "urls_normalized (breadcrumbs st)"
    and "list_all is_normalized (map fst (PAGE_HIERARCHY st))"
  shows "urls_normalized (breadcrumbs (fst (updateBreadcrumb env st lbl url)))"
  using assms by (auto simp: update_trail build_normalized split: sum.splits)

lemma hierarchy_add_link_keys:
  assumes "list_all is_normalized (map fst h)"
  shows "list_all is_normalized (map fst (hierarchy_add_link origin link h))"
  using assms
  by (simp add: hierarchy_add_link_def Let_def update_keys normalizeUrl_is_normalized)

lemma fold_add_link_keys:
  "list_all is_normalized (map fst h) \<Longrightarrow>
     list_all is_normalized (map fst (fold (hierarchy_add_link origin) links h))"
  by (induction links arbitrary: h) (simp_all add: hierarchy_add_link_keys)

lemma initialize_keys:
  assumes "list_all is_normalized (map fst (PAGE_HIERARCHY st))"
  shows "list_all is_normalized (map fst (PAGE_HIERARCHY (initializePageHierarchy env st)))"
  using assms
  by (auto simp: initializePageHierarchy_def Let_def update_keys normalizeUrl_is_normalized
      fold_add_link_keys split: option.splits)

lemma page_load_normalized:
  assumes "urls_normalized (breadcrumbs (loadBreadcrumbs env
              (initializePageHierarchy env (initial_state sto))))"
  shows "urls_normalized (breadcrumbs (fst (onDOMContentLoaded env (initial_state sto))))"
  unfolding onDOMContentLoaded_def
proof (rule update_normalized)
  show "is_normalized (pageUrl env)"
    by (simp add: pageUrl_def normalizeUrl_is_normalized)
  show "urls_normalized (breadcrumbs (loadBreadcrumbs env
              (initializePageHierarchy env (initial_state sto))))"
    by (rule assms)
  show "list_all is_normalized (map fst (PAGE_HIERARCHY (loadBreadcrumbs env
              (initializePageHierarchy env (initial_state sto)))))"
    by (simp add: load_keeps_hierarchy initialize_keys initial_state_def)
qed

text \<open>
  C8 (as stated, refuted). The external call \<open>update("About", "about")\<close> on the
  page of the examples: the trail holds the entry with the address \<open>about\<close> as
  passed, which has no leading slash; its normalized form is \<open>/about\<close>.
\<close>

theorem update_stores_url_verbatim:
  "breadcrumbs (fst (updateBreadcrumb demo_env demo_state ''About'' ''about''))
     = [entry ''Employee Dashboard'' ''/employee_dashboard/'', entry ''About'' ''about'']
   \<and> \<not> is_normalized ''about''
   \<and> normalizeUrl (location_origin demo_env) ''about'' = ''/about''
   \<and> \<not> urls_normalized (breadcrumbs (fst (updateBreadcrumb demo_env demo_state ''About'' ''about'')))"
proof -
  have b: "buildBreadcrumbPath demo_env demo_state ''About'' ''about''
       = Inr [entry ''Employee Dashboard'' ''/employee_dashboard/'', entry ''About'' ''about'']"
    by (simp add: eval_defs demo_defs)
  have n: "normalizeUrl (location_origin demo_env) ''about'' = ''/about''"
    by (simp add: normalizeUrl_def demo_env_def)
  from b n show ?thesis
    by (simp add: update_trail urls_normalized_def url_normalized_entry is_normalized_def)
qed

text \<open>
  C8 (amended). \<open>update(label, url)\<close> stores the address as passed. After it
  every entry of the trail has an address in normalized form (leading slash)
  provided the address passed is in normalized form and the trail and the
  hierarchy keys held before were; the dashboard entry taken from a link of
  the page or from the fixed pair always is. The page-load handler passes a
  normalized address and builds a hierarchy with normalized keys, so after a
  page load the trail is normalized whenever the trail loaded from the store
  is.
\<close>

theorem update_urls_normalized:
  "(is_normalized url \<and> urls_normalized (breadcrumbs st)
      \<and> list_all is_normalized (map fst (PAGE_HIERARCHY st)) \<longrightarrow>
      urls_normalized (breadcrumbs (fst (updateBreadcrumb env st lbl url))))
   \<and> (urls_normalized (breadcrumbs (loadBreadcrumbs env
          (initializePageHierarchy env (initial_state sto)))) \<longrightarrow>
      urls_normalized (breadcrumbs (fst (onDOMContentLoaded env (initial_state sto)))))"
  using update_normalized page_load_normalized by blast

theorem update_urls_normalized_witness:
  "is_normalized ''/a''
   \<and> urls_normalized (breadcrumbs demo_state)
   \<and> list_all is_normalized (map fst (PAGE_HIERARCHY demo_state))
   \<and> urls_normalized (breadcrumbs (fst (updateBreadcrumb demo_env demo_state ''A'' ''/a'')))
   \<and> breadcrumbs (fst (updateBreadcrumb demo_env demo_state ''A'' ''/a''))
       = [entry ''Employee Dashboard'' ''/employee_dashboard/'', entry ''A'' ''/a'']
   \<and> urls_normalized (breadcrumbs (loadBreadcrumbs demo_env
          (initializePageHierarchy demo_env (initial_state demo_storage))))
   \<and> urls_normalized (breadcrumbs (fst (onDOMContentLoaded demo_env (initial_state demo_storage))))"
proof -
  have a: "is_normalized ''/a''"
    by (simp add: is_normalized_def)
  have t: "urls_normalized (breadcrumbs demo_state)"
    by (simp add: urls_normalized_def demo_defs)
  have h: "list_all is_normalized (map fst (PAGE_HIERARCHY demo_state))"
    by (simp add: demo_defs)
  from update_urls_normalized [where url = "''/a''" and st = demo_state and env = demo_env
      and lbl = "''A''"] a t h
  have u: "urls_normalized (breadcrumbs (fst (updateBreadcrumb demo_env demo_state ''A'' ''/a'')))"
    by simp
  have b: "buildBreadcrumbPath demo_env demo_state ''A'' ''/a''
       = Inr [entry ''Employee Dashboard'' ''/employee_dashboard/'', entry ''A'' ''/a'']"
    by (simp add: eval_defs demo_defs)
  then have v: "breadcrumbs (fst (updateBreadcrumb demo_env demo_state ''A'' ''/a''))
       = [entry ''Employee Dashboard'' ''/employee_dashboard/'', entry ''A'' ''/a'']"
    by (simp add: update_trail)
  have "app_breadcrumbs demo_storage = None"
    by (simp add: demo_storage_def)
  then have "breadcrumbs (loadBreadcrumbs demo_env
          (initializePageHierarchy demo_env (initial_state demo_storage))) = []"
    by (simp add: loadBreadcrumbs_def loadBreadcrumbs_try_def getItem_def bind_e_def
        initializePageHierarchy_def initial_state_def demo_storage_def Let_def)
  then have l: "urls_normalized (breadcrumbs (loadBreadcrumbs demo_env
          (initializePageHierarchy demo_env (initial_state demo_storage))))"
    by (simp add: urls_normalized_def)
  from update_urls_normalized [where env = demo_env and sto = demo_storage] l
  have p: "urls_normalized (breadcrumbs (fst (onDOMContentLoaded demo_env
          (initial_state demo_storage))))"
    by blast
  from a t h u v l p show ?thesis by simp
qed


section \<open>Rendering\<close>

lemma escapeHtml_Nil: "escapeHtml [] = []"
  by (simp add: escapeHtml_def)

lemma escapeHtml_append: "escapeHtml (a @ b) = escapeHtml a @ escapeHtml b"
  by (simp add: escapeHtml_def)

lemma escapeHtml_Cons: "escapeHtml (c # s) = escapeHtml [c] @ escapeHtml s"
  by (simp add: escapeHtml_def)

lemma escapeHtml_char:
  \<open>escapeHtml [c] =
     (if c = CHR ''&'' then ''&amp;''
      else if c = CHR ''<'' then ''&lt;''
      else if c = CHR ''>'' then ''&gt;''
      else if c = CHR 0x22 then ''&quot;''
      else if c = CHR 0x27 then ''&#039;''
      else [c])\<close>
  by (simp add: escapeHtml_def escape_map_def)

lemma markup_chars_append: "markup_chars (a @ b) = markup_chars a @ markup_chars b"
  by (simp add: markup_chars_def)

lemma markup_chars_escaped_char: "markup_chars (escapeHtml [c]) = []"
  by (simp add: escapeHtml_char markup_chars_def)

lemma markup_chars_escapeHtml: "markup_chars (escapeHtml s) = []"
proof (induction s)
  case Nil
  show ?case by (simp add: escapeHtml_Nil markup_chars_def)
next
  case (Cons c s)
  have "markup_chars (escapeHtml (c # s))
      = markup_chars (escapeHtml [c]) @ markup_chars (escapeHtml s)"
    by (subst escapeHtml_Cons) (simp add: markup_chars_append)
  with Cons show ?case by (simp add: markup_chars_escaped_char)
qed

lemma escaped_no_markup_char:
  \<open>set (escapeHtml s) \<inter> {CHR ''<'', CHR ''>'', CHR 0x22, CHR 0x27} = {}\<close>
proof -
  have "filter (\<lambda>c. c \<in> set [CHR ''<'', CHR ''>'', CHR 0x22, CHR 0x27]) (escapeHtml s) = []"
    using markup_chars_escapeHtml [of s] by (simp add: markup_chars_def)
  then show ?thesis
    by (auto simp: filter_empty_conv)
qed

lemma str_includes_iff: "str_includes s pat \<longleftrightarrow> (\<exists>a b. s = a @ pat @ b)"
proof (induction s)
  case Nil
  show ?case by auto
next
  case (Cons c s)
  show ?case
  proof
    assume "str_includes (c # s) pat"
    then consider "prefix pat (c # s)" | "str_includes s pat" by auto
    then show "\<exists>a b. c # s = a @ pat @ b"
    proof cases
      case 1
      then obtain b where "c # s = pat @ b" by (auto simp: prefix_def)
      then have "c # s = [] @ pat @ b" by simp
      then show ?thesis by blast
    next
      case 2
      with Cons obtain a b where "s = a @ pat @ b" by blast
      then have "c # s = (c # a) @ pat @ b" by simp
      then show ?thesis by blast
    qed
  next
    assume "\<exists>a b. c # s = a @ pat @ b"
    then obtain a b where ab: "c # s = a @ pat @ b" by blast
    show "str_includes (c # s) pat"
    proof (cases a)
      case Nil
      with ab have "prefix pat (c # s)" by (simp add: prefix_def)
      then show ?thesis by simp
    next
      case (Cons d a')
      with ab have "s = a' @ pat @ b" by simp
      with Cons.IH show ?thesis by auto
    qed
  qed
qed

lemma str_includes_escaped:
  assumes "str_includes l pat"
  shows "str_includes (pre @ escapeHtml l @ post) (escapeHtml pat)"
proof -
  from assms obtain a b where "l = a @ pat @ b"
    by (auto simp: str_includes_iff)
  then have "pre @ escapeHtml l @ post
      = (pre @ escapeHtml a) @ escapeHtml pat @ (escapeHtml b @ post)"
    by (simp add: escapeHtml_append)
  then show ?thesis
    unfolding str_includes_iff by blast
qed

lemma str_includes_first_char: "str_includes s (c # p) \<Longrightarrow> c \<in> set s"
  by (auto simp: str_includes_iff)

lemma escaped_has_no_tag: \<open>\<not> str_includes (escapeHtml s) (CHR ''<'' # p)\<close>
  using escaped_no_markup_char [of s] str_includes_first_char by fastforce

lemma li_innerHTML_entry:
  assumes "str_prop x ''label'' = Some l" and "str_prop x ''url'' = Some u"
  shows "li_innerHTML isLast x =
     Inr (if isLast then span_open @ escapeHtml l @ span_close
          else link_open @ escapeHtml u @ link_mid @ escapeHtml l @ link_close)"
  using assms
  by (cases x)
    (auto simp: li_innerHTML_def str_prop_def bind_e_def split: option.splits jsval.splits)

lemma markup_chars_li:
  assumes "str_prop x ''label'' = Some l" and "str_prop x ''url'' = Some u"
    and "li_innerHTML isLast x = Inr html"
  shows "markup_chars html
     = markup_chars (if isLast then span_open @ span_close
                     else link_open @ link_mid @ link_close)"
  using assms
  by (auto simp: li_innerHTML_entry markup_chars_append markup_chars_escapeHtml)

lemma is_entry_props:
  "is_entry x \<Longrightarrow> \<exists>l u. str_prop x ''label'' = Some l \<and> str_prop x ''url'' = Some u"
  by (auto simp: is_entry_def)

lemma render_from_wf:
  assumes "list_all is_entry xs"
  shows "\<exists>hs. render_from n i xs children = (children @ hs, None)
           \<and> length hs = length xs
           \<and> (\<forall>html \<in> set hs.
                 markup_chars html = markup_chars (span_open @ span_close)
               \<or> markup_chars html = markup_chars (link_open @ link_mid @ link_close))"
  using assms
proof (induction xs arbitrary: i children)
  case Nil
  show ?case by simp
next
  case (Cons x xs)
  then obtain l u where p: "str_prop x ''label'' = Some l" "str_prop x ''url'' = Some u"
    using is_entry_props by fastforce
  obtain html where h: "li_innerHTML (i = n - 1) x = Inr html"
    using li_innerHTML_entry [OF p] by blast
  from markup_chars_li [OF p h]
  have m: "markup_chars html = markup_chars (span_open @ span_close)
         \<or> markup_chars html = markup_chars (link_open @ link_mid @ link_close)"
    by (cases "i = n - 1") simp_all
  from Cons obtain hs where hs: "render_from n (Suc i) xs (children @ [html])
        = ((children @ [html]) @ hs, None)"
      and len: "length hs = length xs"
      and all: "\<forall>html \<in> set hs.
                 markup_chars html = markup_chars (span_open @ span_close)
               \<or> markup_chars html = markup_chars (link_open @ link_mid @ link_close)"
    by fastforce
  have "render_from n i (x # xs) children = (children @ (html # hs), None)"
    using h hs by simp
  moreover have "length (html # hs) = length (x # xs)"
    using len by simp
  moreover have "\<forall>k \<in> set (html # hs).
                 markup_chars k = markup_chars (span_open @ span_close)
               \<or> markup_chars k = markup_chars (link_open @ link_mid @ link_close)"
    using m all by simp
  ultimately show ?case by blast
qed

lemma render_wf:
  assumes "wf_trail (breadcrumbs st)" and "has_breadcrumbList env"
  shows "snd (renderBreadcrumbs env st) = None
     \<and> length (breadcrumbList (fst (renderBreadcrumbs env st))) = length (breadcrumbs st)
     \<and> (\<forall>html \<in> set (breadcrumbList (fst (renderBreadcrumbs env st))).
           markup_chars html = markup_chars (span_open @ span_close)
         \<or> markup_chars html = markup_chars (link_open @ link_mid @ link_close))"
proof (cases "length (breadcrumbs st) = 0")
  case True
  with assms show ?thesis by (simp add: renderBreadcrumbs_def)
next
  case False
  from assms(1) have "list_all is_entry (breadcrumbs st)"
    by (simp add: wf_trail_def)
  from render_from_wf [OF this, of "length (breadcrumbs st)" 0 "[]"]
  obtain hs where "render_from (length (breadcrumbs st)) 0 (breadcrumbs st) [] = (hs, None)"
    and "length hs = length (breadcrumbs st)"
    and "\<forall>html \<in> set hs.
                 markup_chars html = markup_chars (span_open @ span_close)
               \<or> markup_chars html = markup_chars (link_open @ link_mid @ link_close)"
    by auto
  with False assms(2) show ?thesis
    by (simp add: renderBreadcrumbs_def)
qed

text \<open>
  C6. \<open>escapeHtml\<close> replaces each of the five characters \<open>& < > " '\<close> by its
  entity, character by character, and leaves every other character; its result
  holds none of \<open>< > " '\<close>. The markup of an element of the trail is the fixed
  template with the escaped label (and, for a link, the escaped address)
  inserted, so the markup characters of the rendered element are those of the
  template whatever the label and address are: the text can open no element
  and close no attribute. A label that contains \<open><script>\<close> is rendered with
  \<open>&lt;script&gt;\<close> in its place, and the text inserted holds no \<open><\<close>. On a
  well-typed trail \<open>renderBreadcrumbs\<close> raises nothing and renders one element
  per entry.
\<close>

theorem render_escapes:
  \<open>escapeHtml (a @ b) = escapeHtml a @ escapeHtml b
   \<and> escapeHtml [c] =
       (if c = CHR ''&'' then ''&amp;''
        else if c = CHR ''<'' then ''&lt;''
        else if c = CHR ''>'' then ''&gt;''
        else if c = CHR 0x22 then ''&quot;''
        else if c = CHR 0x27 then ''&#039;''
        else [c])
   \<and> set (escapeHtml s) \<inter> {CHR ''<'', CHR ''>'', CHR 0x22, CHR 0x27} = {}
   \<and> (str_prop x ''label'' = Some l \<and> str_prop x ''url'' = Some u \<longrightarrow>
        li_innerHTML True x = Inr (span_open @ escapeHtml l @ span_close)
        \<and> li_innerHTML False x
            = Inr (link_open @ escapeHtml u @ link_mid @ escapeHtml l @ link_close)
        \<and> (\<forall>html. li_innerHTML isLast x = Inr html \<longrightarrow>
              markup_chars html
                = markup_chars (if isLast then span_open @ span_close
                                else link_open @ link_mid @ link_close)
              \<and> (str_includes l ''<script>'' \<longrightarrow> str_includes html ''&lt;script&gt;'')))
   \<and> \<not> str_includes (escapeHtml s) ''<script>''
   \<and> (wf_trail (breadcrumbs st) \<and> has_breadcrumbList env \<longrightarrow>
        snd (renderBreadcrumbs env st) = None
        \<and> length (breadcrumbList (fst (renderBreadcrumbs env st))) = length (breadcrumbs st)
        \<and> (\<forall>html \<in> set (breadcrumbList (fst (renderBreadcrumbs env st))).
              markup_chars html = markup_chars (span_open @ span_close)
            \<or> markup_chars html = markup_chars (link_open @ link_mid @ link_close)))\<close>
proof (intro conjI impI allI ballI)
  show "escapeHtml (a @ b) = escapeHtml a @ escapeHtml b"
    by (rule escapeHtml_append)
next
  show \<open>escapeHtml [c] =
       (if c = CHR ''&'' then ''&amp;''
        else if c = CHR ''<'' then ''&lt;''
        else if c = CHR ''>'' then ''&gt;''
        else if c = CHR 0x22 then ''&quot;''
        else if c = CHR 0x27 then ''&#039;''
        else [c])\<close>
    by (rule escapeHtml_char)
next
  show \<open>set (escapeHtml s) \<inter> {CHR ''<'', CHR ''>'', CHR 0x22, CHR 0x27} = {}\<close>
    by (rule escaped_no_markup_char)
next
  assume "str_prop x ''label'' = Some l \<and> str_prop x ''url'' = Some u"
  then show "li_innerHTML True x = Inr (span_open @ escapeHtml l @ span_close)"
    by (simp add: li_innerHTML_entry)
next
  assume "str_prop x ''label'' = Some l \<and> str_prop x ''url'' = Some u"
  then show "li_innerHTML False x
      = Inr (link_open @ escapeHtml u @ link_mid @ escapeHtml l @ link_close)"
    by (simp add: li_innerHTML_entry)
next
  fix html
  assume "str_prop x ''label'' = Some l \<and> str_prop x ''url'' = Some u"
    and "li_innerHTML isLast x = Inr html"
  then show "markup_chars html
      = markup_chars (if isLast then span_open @ span_close
                      else link_open @ link_mid @ link_close)"
    using markup_chars_li by blast
next
  fix html
  assume p: "str_prop x ''label'' = Some l \<and> str_prop x ''url'' = Some u"
    and h: "li_innerHTML isLast x = Inr html"
    and s: "str_includes l ''<script>''"
  have e: "escapeHtml ''<script>'' = ''&lt;script&gt;''"
    by (simp add: escapeHtml_def escape_map_def)
  show "str_includes html ''&lt;script&gt;''"
  proof (cases isLast)
    case True
    with p h have "html = span_open @ escapeHtml l @ span_close"
      by (simp add: li_innerHTML_entry)
    with str_includes_escaped [OF s, of span_open span_close] e show ?thesis
      by simp
  next
    case False
    with p h have "html = (link_open @ escapeHtml u @ link_mid) @ escapeHtml l @ link_close"
      by (simp add: li_innerHTML_entry)
    with str_includes_escaped [OF s, of "link_open @ escapeHtml u @ link_mid" link_close] e
    show ?thesis by simp
  qed
next
  show "\<not> str_includes (escapeHtml s) ''<script>''"
    by (rule escaped_has_no_tag)
next
  assume "wf_trail (breadcrumbs st) \<and> has_breadcrumbList env"
  then show "snd (renderBreadcrumbs env st) = None"
    using render_wf by blast
next
  assume "wf_trail (breadcrumbs st) \<and> has_breadcrumbList env"
  then show "length (breadcrumbList (fst (renderBreadcrumbs env st))) = length (breadcrumbs st)"
    using render_wf by blast
next
  fix html
  assume "wf_trail (breadcrumbs st) \<and> has_breadcrumbList env"
    and "html \<in> set (breadcrumbList (fst (renderBreadcrumbs env st)))"
  then show "markup_chars html = markup_chars (span_open @ span_close)
      \<or> markup_chars html = markup_chars (link_open @ link_mid @ link_close)"
    using render_wf by blast
qed


text \<open>The witness renders a trail whose first entry has \<open>&\<close> in its label and
  quotes in its address, and whose last entry is titled
  \<open><script>alert(1)</script>\<close>.\<close>

theorem render_escapes_witness:
  \<open>str_prop (entry ''<script>alert(1)</script>'' ''/x'') ''label''
       = Some ''<script>alert(1)</script>''
   \<and> str_prop (entry ''<script>alert(1)</script>'' ''/x'') ''url'' = Some ''/x''
   \<and> str_includes ''<script>alert(1)</script>'' ''<script>''
   \<and> li_innerHTML True (entry ''<script>alert(1)</script>'' ''/x'')
       = Inr ''<span class="font-medium text-gray-500">&lt;script&gt;alert(1)&lt;/script&gt;</span>''
   \<and> str_includes
         ''<span class="font-medium text-gray-500">&lt;script&gt;alert(1)&lt;/script&gt;</span>''
         ''&lt;script&gt;''
   \<and> \<not> str_includes
         ''<span class="font-medium text-gray-500">&lt;script&gt;alert(1)&lt;/script&gt;</span>''
         ''<script''
   \<and> wf_trail (breadcrumbs (demo_state\<lparr>breadcrumbs :=
         [entry ''A&B'' ''/a?x="1"'', entry ''<script>alert(1)</script>'' ''/x'']\<rparr>))
   \<and> has_breadcrumbList demo_env
   \<and> snd (renderBreadcrumbs demo_env (demo_state\<lparr>breadcrumbs :=
         [entry ''A&B'' ''/a?x="1"'', entry ''<script>alert(1)</script>'' ''/x'']\<rparr>)) = None
   \<and> breadcrumbList (fst (renderBreadcrumbs demo_env (demo_state\<lparr>breadcrumbs :=
         [entry ''A&B'' ''/a?x="1"'', entry ''<script>alert(1)</script>'' ''/x'']\<rparr>)))
       = [link_open @ ''/a?x=&quot;1&quot;'' @ link_mid @ ''A&amp;B'' @ link_close,
          ''<span class="font-medium text-gray-500">&lt;script&gt;alert(1)&lt;/script&gt;</span>'']\<close>
proof -
  let ?x = \<open>entry ''<script>alert(1)</script>'' ''/x''\<close>
  let ?html = \<open>''<span class="font-medium text-gray-500">&lt;script&gt;alert(1)&lt;/script&gt;</span>''\<close>
  let ?st = \<open>demo_state\<lparr>breadcrumbs :=
         [entry ''A&B'' ''/a?x="1"'', entry ''<script>alert(1)</script>'' ''/x'']\<rparr>\<close>
  have l: \<open>str_prop ?x ''label'' = Some ''<script>alert(1)</script>''\<close>
    and u: \<open>str_prop ?x ''url'' = Some ''/x''\<close>
    by (simp_all add: str_prop_def entry_def)
  have s: \<open>str_includes ''<script>alert(1)</script>'' ''<script>''\<close>
    by simp
  have e: \<open>escapeHtml ''<script>alert(1)</script>'' = ''&lt;script&gt;alert(1)&lt;/script&gt;''\<close>
    by (simp add: escapeHtml_def escape_map_def)
  from render_escapes [where x = ?x and l = \<open>''<script>alert(1)</script>''\<close> and u = \<open>''/x''\<close>] l u
  have \<open>li_innerHTML True ?x = Inr (span_open @ escapeHtml ''<script>alert(1)</script>'' @ span_close)\<close>
    by blast
  then have h: \<open>li_innerHTML True ?x = Inr ?html\<close>
    by (simp add: e span_open_def span_close_def)
  from render_escapes [where x = ?x and l = \<open>''<script>alert(1)</script>''\<close> and u = \<open>''/x''\<close>
      and isLast = True] l u s h
  have i: \<open>str_includes ?html ''&lt;script&gt;''\<close>
    by blast
  have n: \<open>\<not> str_includes ?html ''<script''\<close>
    by simp
  have w: \<open>wf_trail (breadcrumbs ?st)\<close>
    by (simp add: wf_trail_def is_entry_entry)
  have c: \<open>has_breadcrumbList demo_env\<close>
    by (simp add: demo_env_def)
  from render_escapes [where st = ?st and env = demo_env] w c
  have r: \<open>snd (renderBreadcrumbs demo_env ?st) = None\<close>
    by blast
  have e1: \<open>escapeHtml ''A&B'' = ''A&amp;B''\<close>
    and e2: \<open>escapeHtml ''/a?x="1"'' = ''/a?x=&quot;1&quot;''\<close>
    by (simp_all add: escapeHtml_def escape_map_def)
  have v: \<open>breadcrumbList (fst (renderBreadcrumbs demo_env ?st))
       = [link_open @ ''/a?x=&quot;1&quot;'' @ link_mid @ ''A&amp;B'' @ link_close, ?html]\<close>
    by (simp add: renderBreadcrumbs_def c li_innerHTML_def entry_def bind_e_def e e1 e2
        span_open_def span_close_def)
  from l u s h i n w c r v show ?thesis by simp
qed


section \<open>The snapshot accessor\<close>

lemma map_of_update_other: "k' \<noteq> k \<Longrightarrow> map_of (AList.update k v al) k' = map_of al k'"
  by (simp add: update_conv')

lemma map_of_update_same: "map_of (AList.update k v al) k = Some v"
  by (simp add: update_conv')

lemma heap_ok_elems:
  assumes "heap_ok h"
  shows "\<forall>x \<in> set (array_elems h (breadcrumbs_ref h)). x < next_ref h"
proof (cases "map_of (cells h) (breadcrumbs_ref h)")
  case None
  then show ?thesis by (simp add: array_elems_def)
next
  case (Some c)
  then have "(breadcrumbs_ref h, c) \<in> set (cells h)"
    by (rule map_of_SomeD)
  with assms Some show ?thesis
    by (cases c) (auto simp: heap_ok_def array_elems_def)
qed

lemma getCurrentPath_fresh:
  assumes "heap_ok h"
  shows "fst (getCurrentPath h) \<noteq> breadcrumbs_ref h"
    and "fst (getCurrentPath h) \<notin> set (array_elems h (breadcrumbs_ref h))"
  using assms heap_ok_elems [OF assms]
  by (auto simp: getCurrentPath_def heap_ok_def)

lemma trail_after_array_write:
  assumes "r \<noteq> breadcrumbs_ref h" and "r \<notin> set (array_elems h (breadcrumbs_ref h))"
  shows "trail_of (array_write r xs h) = trail_of h"
proof -
  have e: "array_elems (array_write r xs h) (breadcrumbs_ref h) = array_elems h (breadcrumbs_ref h)"
    using assms(1) by (simp add: array_elems_def array_write_def map_of_update_other)
  have "\<forall>x \<in> set (array_elems h (breadcrumbs_ref h)). deref (array_write r xs h) x = deref h x"
  proof
    fix x
    assume "x \<in> set (array_elems h (breadcrumbs_ref h))"
    with assms(2) have "x \<noteq> r" by auto
    then show "deref (array_write r xs h) x = deref h x"
      by (simp add: deref_def array_write_def map_of_update_other)
  qed
  with e show ?thesis
    by (simp add: trail_of_def array_write_def)
qed

lemma getCurrentPath_as_write:
  "snd (getCurrentPath h)
     = (array_write (next_ref h) (array_elems h (breadcrumbs_ref h)) h)
         \<lparr>next_ref := Suc (next_ref h)\<rparr>"
  by (simp add: getCurrentPath_def array_write_def)

lemma trail_of_next_ref: "trail_of (h\<lparr>next_ref := n\<rparr>) = trail_of h"
  by (simp add: trail_of_def array_elems_def deref_def)

lemma array_write_twice:
  "array_write r xs ((array_write r ys h)\<lparr>next_ref := n\<rparr>) = (array_write r xs h)\<lparr>next_ref := n\<rparr>"
  by (simp add: array_write_def)

text \<open>
  C9 (as stated, refuted). The trail holds the one entry \<open>{A, /a}\<close>. The caller
  takes the snapshot and assigns \<open>snapshot[0].label = "X"\<close>: the entry object is
  the engine's own, and the engine's trail now reads \<open>{X, /a}\<close>.
\<close>

theorem snapshot_shares_entries:
  "heap_ok \<lparr>cells = [(0, ArrayCell [1]),
                      (1, ObjectCell [(''label'', JStr ''A''), (''url'', JStr ''/a'')])],
            next_ref = 2, breadcrumbs_ref = 0\<rparr>
   \<and> trail_of \<lparr>cells = [(0, ArrayCell [1]),
                        (1, ObjectCell [(''label'', JStr ''A''), (''url'', JStr ''/a'')])],
              next_ref = 2, breadcrumbs_ref = 0\<rparr> = [entry ''A'' ''/a'']
   \<and> fst (getCurrentPath \<lparr>cells = [(0, ArrayCell [1]),
                        (1, ObjectCell [(''label'', JStr ''A''), (''url'', JStr ''/a'')])],
              next_ref = 2, breadcrumbs_ref = 0\<rparr>) = 2
   \<and> array_elems (snd (getCurrentPath \<lparr>cells = [(0, ArrayCell [1]),
                        (1, ObjectCell [(''label'', JStr ''A''), (''url'', JStr ''/a'')])],
              next_ref = 2, breadcrumbs_ref = 0\<rparr>)) 2 = [1]
   \<and> trail_of (object_store 1 ''label'' (JStr ''X'')
        (snd (getCurrentPath \<lparr>cells = [(0, ArrayCell [1]),
                        (1, ObjectCell [(''label'', JStr ''A''), (''url'', JStr ''/a'')])],
              next_ref = 2, breadcrumbs_ref = 0\<rparr>))) = [entry ''X'' ''/a'']
   \<and> trail_of (object_store 1 ''label'' (JStr ''X'')
        (snd (getCurrentPath \<lparr>cells = [(0, ArrayCell [1]),
                        (1, ObjectCell [(''label'', JStr ''A''), (''url'', JStr ''/a'')])],
              next_ref = 2, breadcrumbs_ref = 0\<rparr>)))
     \<noteq> trail_of \<lparr>cells = [(0, ArrayCell [1]),
                        (1, ObjectCell [(''label'', JStr ''A''), (''url'', JStr ''/a'')])],
              next_ref = 2, breadcrumbs_ref = 0\<rparr>"
  by (simp add: heap_ok_def trail_of_def array_elems_def deref_def getCurrentPath_def
      object_store_def entry_def)

text \<open>
  C9 (amended). \<open>getCurrentPath\<close> returns a new array that holds the entries of
  the current trail (a shallow copy): the engine's trail is unchanged by the
  call, and whatever the caller then does to the elements of the returned array
  (adding, removing, replacing) leaves the engine's trail unchanged. The entry
  objects are shared with the engine.
\<close>

theorem snapshot_is_shallow_copy:
  "heap_ok h \<longrightarrow>
     fst (getCurrentPath h) \<noteq> breadcrumbs_ref (snd (getCurrentPath h))
     \<and> array_elems (snd (getCurrentPath h)) (fst (getCurrentPath h))
         = array_elems h (breadcrumbs_ref h)
     \<and> trail_of (snd (getCurrentPath h)) = trail_of h
     \<and> (\<forall>xs. trail_of (array_write (fst (getCurrentPath h)) xs (snd (getCurrentPath h)))
              = trail_of h)"
proof (intro impI conjI allI)
  assume ok: "heap_ok h"
  have f: "fst (getCurrentPath h) = next_ref h"
    by (simp add: getCurrentPath_def)
  have fresh: "next_ref h \<noteq> breadcrumbs_ref h"
    "next_ref h \<notin> set (array_elems h (breadcrumbs_ref h))"
    using getCurrentPath_fresh [OF ok] by (simp_all add: f)
  show "fst (getCurrentPath h) \<noteq> breadcrumbs_ref (snd (getCurrentPath h))"
    using fresh(1) by (simp add: getCurrentPath_def)
  show "array_elems (snd (getCurrentPath h)) (fst (getCurrentPath h))
         = array_elems h (breadcrumbs_ref h)"
    by (simp add: getCurrentPath_def array_elems_def map_of_update_same)
  show "trail_of (snd (getCurrentPath h)) = trail_of h"
    using fresh by (simp add: getCurrentPath_as_write trail_of_next_ref trail_after_array_write)
  fix xs
  show "trail_of (array_write (fst (getCurrentPath h)) xs (snd (getCurrentPath h))) = trail_of h"
    using fresh
    by (simp add: f getCurrentPath_as_write array_write_twice trail_of_next_ref
        trail_after_array_write)
qed

text \<open>The witness: the caller empties the snapshot of the one-entry trail, or
  replaces its element by the array itself; the engine's trail stays.\<close>

theorem snapshot_is_shallow_copy_witness:
  "heap_ok \<lparr>cells = [(0, ArrayCell [1]),
                      (1, ObjectCell [(''label'', JStr ''A''), (''url'', JStr ''/a'')])],
            next_ref = 2, breadcrumbs_ref = 0\<rparr>
   \<and> fst (getCurrentPath \<lparr>cells = [(0, ArrayCell [1]),
                        (1, ObjectCell [(''label'', JStr ''A''), (''url'', JStr ''/a'')])],
              next_ref = 2, breadcrumbs_ref = 0\<rparr>) = 2
   \<and> trail_of (array_write 2 []
        (snd (getCurrentPath \<lparr>cells = [(0, ArrayCell [1]),
                        (1, ObjectCell [(''label'', JStr ''A''), (''url'', JStr ''/a'')])],
              next_ref = 2, breadcrumbs_ref = 0\<rparr>))) = [entry ''A'' ''/a'']
   \<and> trail_of (array_write 2 [2, 1, 1]
        (snd (getCurrentPath \<lparr>cells = [(0, ArrayCell [1]),
                        (1, ObjectCell [(''label'', JStr ''A''), (''url'', JStr ''/a'')])],
              next_ref = 2, breadcrumbs_ref = 0\<rparr>))) = [entry ''A'' ''/a'']"
proof -
  let ?h = "\<lparr>cells = [(0, ArrayCell [1]),
                      (1, ObjectCell [(''label'', JStr ''A''), (''url'', JStr ''/a'')])],
            next_ref = 2, breadcrumbs_ref = 0\<rparr>"
  have ok: "heap_ok ?h"
    by (simp add: heap_ok_def)
  have f: "fst (getCurrentPath ?h) = 2"
    by (simp add: getCurrentPath_def)
  have t: "trail_of ?h = [entry ''A'' ''/a'']"
    by (simp add: trail_of_def array_elems_def deref_def entry_def)
  from snapshot_is_shallow_copy [of ?h] ok
  have a: "trail_of (array_write (fst (getCurrentPath ?h)) xs (snd (getCurrentPath ?h)))
              = trail_of ?h" for xs
    by blast
  have e1: "trail_of (array_write 2 [] (snd (getCurrentPath ?h))) = [entry ''A'' ''/a'']"
    using a [of "[]"] unfolding f t .
  have e2: "trail_of (array_write 2 [2, 1, 1] (snd (getCurrentPath ?h))) = [entry ''A'' ''/a'']"
    using a [of "[2, 1, 1]"] unfolding f t .
  from ok f e1 e2 show ?thesis by blast
qed


section \<open>The page-load scenarios of the specification\<close>

text \<open>
  The three scenarios the specification lists, run through the page-load
  handler from the empty trail: a leaf page under the admin dashboard of the
  catalog, a page that is itself a dashboard, and a leaf page with no catalog
  and no role indicator.
\<close>

lemma scenario_admin_leaf:
  "breadcrumbs (fst (onDOMContentLoaded admin_env demo_state))
     = [entry ''Admin Dashboard'' ''/admin_dashboard/'',
        entry ''Edit Employee'' ''/employees/5/edit/'']"
proof -
  let ?st = "loadBreadcrumbs admin_env (initializePageHierarchy admin_env demo_state)"
  have s: "?st = demo_state\<lparr>PAGE_HIERARCHY :=
      [(''/admin_dashboard/'', \<lparr>label = ''Admin Dashboard'', level = 0, parent = None\<rparr>),
       (''/employees/5/edit/'', \<lparr>label = ''Edit Employee'', level = 1, parent = None\<rparr>)]\<rparr>"
    by (simp add: eval_defs demo_defs page_defs loadBreadcrumbs_def loadBreadcrumbs_try_def
        getItem_def)
  have "buildBreadcrumbPath admin_env ?st (pageLabel admin_env) (pageUrl admin_env)
      = Inr [entry ''Admin Dashboard'' ''/admin_dashboard/'',
             entry ''Edit Employee'' ''/employees/5/edit/'']"
    unfolding s
    by (simp add: eval_defs demo_defs page_defs pageLabel_def pageUrl_def)
  then show ?thesis
    by (simp add: onDOMContentLoaded_def update_trail)
qed

lemma scenario_dashboard_page:
  "breadcrumbs (fst (onDOMContentLoaded
       (demo_env\<lparr>location_pathname := ''/employee_dashboard/'',
                 document_title := ''Employee Dashboard''\<rparr>) demo_state))
     = [entry ''Employee Dashboard'' ''/employee_dashboard/'']"
proof -
  let ?env = "demo_env\<lparr>location_pathname := ''/employee_dashboard/'',
                 document_title := ''Employee Dashboard''\<rparr>"
  have "isDashboardPage ?env st (JStr (pageUrl ?env)) (JStr (pageLabel ?env)) = Inr True" for st
    by (simp add: isDashboardPage_strings pageLabel_def pageUrl_def or_else_def demo_env_def
        normalizeUrl_def urlPatterns_def)
  then have "buildBreadcrumbPath ?env st (pageLabel ?env) (pageUrl ?env)
      = Inr [entry (pageLabel ?env) (pageUrl ?env)]" for st
    by (rule build_dashboard)
  then show ?thesis
    by (simp add: onDOMContentLoaded_def update_trail pageLabel_def pageUrl_def or_else_def
        demo_env_def normalizeUrl_def)
qed

lemma scenario_default_fallback:
  "breadcrumbs (fst (onDOMContentLoaded
       (demo_env\<lparr>location_pathname := ''/profile/'', document_title := ''Profile''\<rparr>)
       demo_state))
     = [entry ''Employee Dashboard'' ''/employee_dashboard/'', entry ''Profile'' ''/profile/'']"
proof -
  let ?env = "demo_env\<lparr>location_pathname := ''/profile/'', document_title := ''Profile''\<rparr>"
  let ?st = "loadBreadcrumbs ?env (initializePageHierarchy ?env demo_state)"
  have s: "?st = demo_state\<lparr>PAGE_HIERARCHY :=
      [(''/profile/'', \<lparr>label = ''Profile'', level = 1, parent = None\<rparr>)]\<rparr>"
    by (simp add: eval_defs demo_defs page_defs loadBreadcrumbs_def loadBreadcrumbs_try_def
        getItem_def)
  have "buildBreadcrumbPath ?env ?st (pageLabel ?env) (pageUrl ?env)
      = Inr [entry ''Employee Dashboard'' ''/employee_dashboard/'', entry ''Profile'' ''/profile/'']"
    unfolding s
    by (simp add: eval_defs demo_defs page_defs pageLabel_def pageUrl_def)
  then show ?thesis
    by (simp add: onDOMContentLoaded_def update_trail)
qed

end
